theory Spec2Isabelle
  imports Main "HOL-Library.Word"
begin

unbundle bit_operations_syntax

section \<open>Vulkan values used by the renderer\<close>

text \<open>
  The renderer talks to the Vulkan driver through C enums and flag words. Enums
  (\<open>VkResult\<close>, \<open>VkFormat\<close>, \<open>VkImageLayout\<close>, ...) are C \<open>int\<close>s and are modelled
  as \<open>int\<close>; flag masks and counts are \<open>uint32_t\<close> and are modelled as \<open>32 word\<close>.
  The numeric values are those of the Vulkan 1.x headers.
\<close>

type_synonym u32 = "32 word"
type_synonym VkResult = int
type_synonym VkFormat = int
type_synonym VkColorSpaceKHR = int
type_synonym VkPresentModeKHR = int
type_synonym VkSharingMode = int
type_synonym VkImageLayout = int

definition VK_SUCCESS :: VkResult where "VK_SUCCESS = 0"
definition VK_SUBOPTIMAL_KHR :: VkResult where "VK_SUBOPTIMAL_KHR = 1000001003"
definition VK_ERROR_OUT_OF_DATE_KHR :: VkResult where "VK_ERROR_OUT_OF_DATE_KHR = - 1000001004"

definition VK_FORMAT_B8G8R8A8_SRGB :: VkFormat where "VK_FORMAT_B8G8R8A8_SRGB = 50"
definition VK_FORMAT_D24_UNORM_S8_UINT :: VkFormat where "VK_FORMAT_D24_UNORM_S8_UINT = 129"
definition VK_FORMAT_D32_SFLOAT_S8_UINT :: VkFormat where "VK_FORMAT_D32_SFLOAT_S8_UINT = 130"
definition VK_COLOR_SPACE_SRGB_NONLINEAR_KHR :: VkColorSpaceKHR where
  "VK_COLOR_SPACE_SRGB_NONLINEAR_KHR = 0"

definition VK_PRESENT_MODE_MAILBOX_KHR :: VkPresentModeKHR where "VK_PRESENT_MODE_MAILBOX_KHR = 1"
definition VK_PRESENT_MODE_FIFO_KHR :: VkPresentModeKHR where "VK_PRESENT_MODE_FIFO_KHR = 2"

definition VK_SHARING_MODE_EXCLUSIVE :: VkSharingMode where "VK_SHARING_MODE_EXCLUSIVE = 0"
definition VK_SHARING_MODE_CONCURRENT :: VkSharingMode where "VK_SHARING_MODE_CONCURRENT = 1"

definition VK_QUEUE_GRAPHICS_BIT :: u32 where "VK_QUEUE_GRAPHICS_BIT = 1"
definition VK_QUEUE_COMPUTE_BIT :: u32 where "VK_QUEUE_COMPUTE_BIT = 2"
definition VK_QUEUE_TRANSFER_BIT :: u32 where "VK_QUEUE_TRANSFER_BIT = 4"
definition VK_QUEUE_SPARSE_BINDING_BIT :: u32 where "VK_QUEUE_SPARSE_BINDING_BIT = 8"

definition VK_IMAGE_USAGE_COLOR_ATTACHMENT_BIT :: u32 where
  "VK_IMAGE_USAGE_COLOR_ATTACHMENT_BIT = 16"
definition VK_COMPOSITE_ALPHA_OPAQUE_BIT_KHR :: u32 where
  "VK_COMPOSITE_ALPHA_OPAQUE_BIT_KHR = 1"

text \<open>
  Exceptions of the C++ code are values. \<open>BadOptionalAccess\<close> is what
  \<open>std::optional::value()\<close> throws on an empty optional; \<open>OutOfRange\<close> stands for
  indexing an empty \<open>std::vector\<close> with \<open>[0]\<close>, which C++ leaves undefined.
\<close>

datatype error =
    RuntimeError string
  | InvalidArgument string
  | BadOptionalAccess
  | OutOfRange

section \<open>Swapchain parameter selection\<close>

record VkSurfaceFormatKHR =
  format :: VkFormat
  colorSpace :: VkColorSpaceKHR

record VkExtent2D =
  width :: u32
  height :: u32

record VkSurfaceCapabilitiesKHR =
  minImageCount :: u32
  maxImageCount :: u32
  currentExtent :: VkExtent2D
  minImageExtent :: VkExtent2D
  maxImageExtent :: VkExtent2D
  currentTransform :: u32

record SwapChainSupportDetails =
  capabilities :: VkSurfaceCapabilitiesKHR
  formats :: "VkSurfaceFormatKHR list"
  presentModes :: "VkPresentModeKHR list"

text \<open>
  \<open>chooseSwapSurfaceFormat\<close>: the range-for loop returns the first format that is
  B8G8R8A8_SRGB with the sRGB non-linear colour space; after the loop the code returns
  \<open>availableFormats[0]\<close>.
\<close>

fun chooseSwapSurfaceFormat_loop :: "VkSurfaceFormatKHR list \<Rightarrow> VkSurfaceFormatKHR option" where
  "chooseSwapSurfaceFormat_loop [] = None"
| "chooseSwapSurfaceFormat_loop (availableFormat # rest) =
     (if format availableFormat = VK_FORMAT_B8G8R8A8_SRGB
         \<and> colorSpace availableFormat = VK_COLOR_SPACE_SRGB_NONLINEAR_KHR
      then Some availableFormat
      else chooseSwapSurfaceFormat_loop rest)"

definition chooseSwapSurfaceFormat :: "VkSurfaceFormatKHR list \<Rightarrow> error + VkSurfaceFormatKHR" where
  "chooseSwapSurfaceFormat availableFormats =
     (case chooseSwapSurfaceFormat_loop availableFormats of
        Some f \<Rightarrow> Inr f
      | None \<Rightarrow> (case availableFormats of [] \<Rightarrow> Inl OutOfRange | f0 # _ \<Rightarrow> Inr f0))"

fun chooseSwapPresentMode :: "VkPresentModeKHR list \<Rightarrow> VkPresentModeKHR" where
  "chooseSwapPresentMode [] = VK_PRESENT_MODE_FIFO_KHR"
| "chooseSwapPresentMode (availablePresentMode # rest) =
     (if availablePresentMode = VK_PRESENT_MODE_MAILBOX_KHR then availablePresentMode
      else chooseSwapPresentMode rest)"

text \<open>
  \<open>std::clamp(v, lo, hi)\<close> on \<open>uint32_t\<close>: \<open>(v < lo) ? lo : (hi < v) ? hi : v\<close>.
\<close>

definition std_clamp :: "u32 \<Rightarrow> u32 \<Rightarrow> u32 \<Rightarrow> u32" where
  "std_clamp v lo hi = (if v < lo then lo else if hi < v then hi else v)"

text \<open>
  \<open>chooseSwapExtent\<close>. The second argument is what \<open>glfwGetFramebufferSize\<close>
  writes into the two C \<open>int\<close>s; \<open>static_cast<uint32_t>\<close> is \<open>word_of_int\<close>.
  The test for the "no fixed extent" sentinel looks at the width only.
\<close>

definition chooseSwapExtent :: "VkSurfaceCapabilitiesKHR \<Rightarrow> int \<times> int \<Rightarrow> VkExtent2D" where
  "chooseSwapExtent caps framebufferSize =
     (if width (currentExtent caps) \<noteq> (- 1)
      then currentExtent caps
      else
        (let actualExtent = \<lparr> width = word_of_int (fst framebufferSize),
                               height = word_of_int (snd framebufferSize) \<rparr>;
             actualExtent = actualExtent \<lparr> width :=
               std_clamp (width actualExtent) (width (minImageExtent caps)) (width (maxImageExtent caps)) \<rparr>;
             actualExtent = actualExtent \<lparr> height :=
               std_clamp (height actualExtent) (height (minImageExtent caps)) (height (maxImageExtent caps)) \<rparr>
         in actualExtent))"

subsection \<open>Queue family indices\<close>

text \<open>
  \<open>QueueFamilyIndices\<close> holds three \<open>std::optional<uint32_t>\<close>. The indices are
  positions in the driver's family list; they are kept as \<open>nat\<close> (the list length is a
  \<open>uint32_t\<close>, so no position overflows).
\<close>

record QueueFamilyIndices =
  graphicsFamily :: "nat option"
  presentFamily :: "nat option"
  transferFamily :: "nat option"

text \<open>
  Modelled from the spec: \<open>QueueFamilyIndices::isComplete\<close> is declared in
  GraphicsContext.h, which is not among the sources. The spec's data model says that
  selection is complete only when all three indices are present.
\<close>

definition isComplete :: "QueueFamilyIndices \<Rightarrow> bool" where
  "isComplete indices \<longleftrightarrow>
     graphicsFamily indices \<noteq> None \<and> presentFamily indices \<noteq> None \<and> transferFamily indices \<noteq> None"

subsection \<open>createSwapChain\<close>

record VkSwapchainCreateInfoKHR =
  ci_minImageCount :: u32
  ci_imageFormat :: VkFormat
  ci_imageColorSpace :: VkColorSpaceKHR
  ci_imageExtent :: VkExtent2D
  ci_imageArrayLayers :: u32
  ci_imageUsage :: u32
  ci_imageSharingMode :: VkSharingMode
  ci_queueFamilyIndexCount :: u32
  ci_pQueueFamilyIndices :: "nat list option"
  ci_preTransform :: u32
  ci_compositeAlpha :: u32
  ci_presentMode :: VkPresentModeKHR
  ci_clipped :: bool

definition optional_value :: "'a option \<Rightarrow> error + 'a" where
  "optional_value x = (case x of None \<Rightarrow> Inl BadOptionalAccess | Some v \<Rightarrow> Inr v)"

text \<open>
  \<open>createSwapChain\<close> up to and including the call of \<open>vkCreateSwapchainKHR\<close>: the
  function returns the create-info it hands to the driver, or the exception it leaves
  with. \<open>createResult\<close> is the driver's answer to \<open>vkCreateSwapchainKHR\<close>.
  \<open>pQueueFamilyIndices = nullptr\<close> is \<open>None\<close>.
\<close>

definition createSwapChain ::
  "SwapChainSupportDetails \<Rightarrow> int \<times> int \<Rightarrow> QueueFamilyIndices \<Rightarrow> VkResult
     \<Rightarrow> error + VkSwapchainCreateInfoKHR" where
  "createSwapChain swapChainSupport framebufferSize queueFamilyIndices createResult =
     (case chooseSwapSurfaceFormat (formats swapChainSupport) of
        Inl e \<Rightarrow> Inl e
      | Inr surfaceFormat \<Rightarrow>
     (let presentMode = chooseSwapPresentMode (presentModes swapChainSupport);
          extent = chooseSwapExtent (capabilities swapChainSupport) framebufferSize;
          imageCount = minImageCount (capabilities swapChainSupport) + 1;
          imageCount =
            (if maxImageCount (capabilities swapChainSupport) > 0
                \<and> imageCount > maxImageCount (capabilities swapChainSupport)
             then maxImageCount (capabilities swapChainSupport) else imageCount)
      in
     (case optional_value (graphicsFamily queueFamilyIndices) of
        Inl e \<Rightarrow> Inl e
      | Inr g \<Rightarrow>
     (case optional_value (transferFamily queueFamilyIndices) of
        Inl e \<Rightarrow> Inl e
      | Inr t \<Rightarrow>
     (let createInfo = \<lparr>
            ci_minImageCount = imageCount,
            ci_imageFormat = format surfaceFormat,
            ci_imageColorSpace = colorSpace surfaceFormat,
            ci_imageExtent = extent,
            ci_imageArrayLayers = 1,
            ci_imageUsage = VK_IMAGE_USAGE_COLOR_ATTACHMENT_BIT,
            ci_imageSharingMode =
              (if graphicsFamily queueFamilyIndices \<noteq> transferFamily queueFamilyIndices
               then VK_SHARING_MODE_CONCURRENT else VK_SHARING_MODE_EXCLUSIVE),
            ci_queueFamilyIndexCount =
              (if graphicsFamily queueFamilyIndices \<noteq> transferFamily queueFamilyIndices
               then 2 else 0),
            ci_pQueueFamilyIndices =
              (if graphicsFamily queueFamilyIndices \<noteq> transferFamily queueFamilyIndices
               then Some [g, t] else None),
            ci_preTransform = currentTransform (capabilities swapChainSupport),
            ci_compositeAlpha = VK_COMPOSITE_ALPHA_OPAQUE_BIT_KHR,
            ci_presentMode = presentMode,
            ci_clipped = True \<rparr>
      in if createResult \<noteq> VK_SUCCESS then Inl (RuntimeError ''failed to create swap chain'')
         else Inr createInfo)))))"

section \<open>Queue family selection\<close>

text \<open>
  One entry per queue family of the physical device, in the driver's order:
  \<open>queueFlags\<close> is the field of \<open>VkQueueFamilyProperties\<close>, \<open>presentSupport\<close> is what
  \<open>vkGetPhysicalDeviceSurfaceSupportKHR\<close> answers for this family's index.
\<close>

record QueueFamily =
  queueFlags :: u32
  presentSupport :: bool

definition graphicsQueueflags :: u32 where
  "graphicsQueueflags = VK_QUEUE_GRAPHICS_BIT OR VK_QUEUE_TRANSFER_BIT OR VK_QUEUE_SPARSE_BINDING_BIT"

definition transferQueueflags :: u32 where
  "transferQueueflags = VK_QUEUE_TRANSFER_BIT OR VK_QUEUE_SPARSE_BINDING_BIT"

text \<open>The three tests of the loop body, as the source writes them.\<close>

definition isPresentCapable :: "QueueFamily \<Rightarrow> bool" where
  "isPresentCapable queueFamily \<longleftrightarrow> presentSupport queueFamily"

definition isGraphicsCapable :: "QueueFamily \<Rightarrow> bool" where
  "isGraphicsCapable queueFamily \<longleftrightarrow>
     queueFlags queueFamily AND graphicsQueueflags = graphicsQueueflags"

definition isTransferOnly :: "QueueFamily \<Rightarrow> bool" where
  "isTransferOnly queueFamily \<longleftrightarrow>
     queueFlags queueFamily AND transferQueueflags = transferQueueflags
     \<and> queueFlags queueFamily AND VK_QUEUE_GRAPHICS_BIT = 0"

text \<open>One iteration of the range-for loop before its \<open>isComplete\<close> test.\<close>

definition findQueueFamilies_body :: "QueueFamily \<Rightarrow> nat \<Rightarrow> QueueFamilyIndices \<Rightarrow> QueueFamilyIndices" where
  "findQueueFamilies_body queueFamily i indices =
     (let indices = (if isPresentCapable queueFamily then indices \<lparr> presentFamily := Some i \<rparr> else indices);
          indices = (if isGraphicsCapable queueFamily then indices \<lparr> graphicsFamily := Some i \<rparr> else indices);
          indices = (if isTransferOnly queueFamily then indices \<lparr> transferFamily := Some i \<rparr> else indices)
      in indices)"

fun findQueueFamilies_loop :: "QueueFamily list \<Rightarrow> nat \<Rightarrow> QueueFamilyIndices \<Rightarrow> QueueFamilyIndices" where
  "findQueueFamilies_loop [] i indices = indices"
| "findQueueFamilies_loop (queueFamily # rest) i indices =
     (let indices = findQueueFamilies_body queueFamily i indices
      in if isComplete indices then indices
         else findQueueFamilies_loop rest (i + 1) indices)"

definition noIndices :: QueueFamilyIndices where
  "noIndices = \<lparr> graphicsFamily = None, presentFamily = None, transferFamily = None \<rparr>"

definition findQueueFamilies :: "QueueFamily list \<Rightarrow> error + QueueFamilyIndices" where
  "findQueueFamilies queueFamilies =
     (if length queueFamilies = 0
      then Inl (RuntimeError ''failed to queueFamilies for device'')
      else Inr (findQueueFamilies_loop queueFamilies 0 noIndices))"

text \<open>
  Vocabulary for stating which index a scan selects: the last position below \<open>n\<close>
  at which a test holds, if there is one.
\<close>

fun lastBelow :: "(nat \<Rightarrow> bool) \<Rightarrow> nat \<Rightarrow> nat option" where
  "lastBelow P 0 = None"
| "lastBelow P (Suc n) = (if P n then Some n else lastBelow P n)"

text \<open>The indices held after the first \<open>n\<close> families have been through the loop body.\<close>

definition indicesAfter :: "QueueFamily list \<Rightarrow> nat \<Rightarrow> QueueFamilyIndices" where
  "indicesAfter queueFamilies n =
     \<lparr> graphicsFamily = lastBelow (\<lambda>i. isGraphicsCapable (queueFamilies ! i)) n,
       presentFamily = lastBelow (\<lambda>i. isPresentCapable (queueFamilies ! i)) n,
       transferFamily = lastBelow (\<lambda>i. isTransferOnly (queueFamilies ! i)) n \<rparr>"

section \<open>Outcomes of stateful operations\<close>

text \<open>
  A stateful operation yields an outcome together with the state it leaves behind:
  it returns, it leaves with an exception, or it never returns (a blocking driver call
  that is never released).
\<close>

datatype outcome = Returned | Thrown error | Blocked

section \<open>Image layout transition\<close>

definition VK_IMAGE_LAYOUT_UNDEFINED :: VkImageLayout where
  "VK_IMAGE_LAYOUT_UNDEFINED = 0"
definition VK_IMAGE_LAYOUT_DEPTH_STENCIL_ATTACHMENT_OPTIMAL :: VkImageLayout where
  "VK_IMAGE_LAYOUT_DEPTH_STENCIL_ATTACHMENT_OPTIMAL = 3"
definition VK_IMAGE_LAYOUT_SHADER_READ_ONLY_OPTIMAL :: VkImageLayout where
  "VK_IMAGE_LAYOUT_SHADER_READ_ONLY_OPTIMAL = 5"
definition VK_IMAGE_LAYOUT_TRANSFER_DST_OPTIMAL :: VkImageLayout where
  "VK_IMAGE_LAYOUT_TRANSFER_DST_OPTIMAL = 7"

definition VK_IMAGE_ASPECT_COLOR_BIT :: u32 where "VK_IMAGE_ASPECT_COLOR_BIT = 1"
definition VK_IMAGE_ASPECT_DEPTH_BIT :: u32 where "VK_IMAGE_ASPECT_DEPTH_BIT = 2"
definition VK_IMAGE_ASPECT_STENCIL_BIT :: u32 where "VK_IMAGE_ASPECT_STENCIL_BIT = 4"

definition VK_PIPELINE_STAGE_TOP_OF_PIPE_BIT :: u32 where
  "VK_PIPELINE_STAGE_TOP_OF_PIPE_BIT = 1"
definition VK_PIPELINE_STAGE_FRAGMENT_SHADER_BIT :: u32 where
  "VK_PIPELINE_STAGE_FRAGMENT_SHADER_BIT = 128"
definition VK_PIPELINE_STAGE_EARLY_FRAGMENT_TESTS_BIT :: u32 where
  "VK_PIPELINE_STAGE_EARLY_FRAGMENT_TESTS_BIT = 256"
definition VK_PIPELINE_STAGE_TRANSFER_BIT :: u32 where
  "VK_PIPELINE_STAGE_TRANSFER_BIT = 4096"

definition VK_ACCESS_SHADER_READ_BIT :: u32 where
  "VK_ACCESS_SHADER_READ_BIT = 32"
definition VK_ACCESS_DEPTH_STENCIL_ATTACHMENT_READ_BIT :: u32 where
  "VK_ACCESS_DEPTH_STENCIL_ATTACHMENT_READ_BIT = 512"
definition VK_ACCESS_DEPTH_STENCIL_ATTACHMENT_WRITE_BIT :: u32 where
  "VK_ACCESS_DEPTH_STENCIL_ATTACHMENT_WRITE_BIT = 1024"
definition VK_ACCESS_TRANSFER_WRITE_BIT :: u32 where
  "VK_ACCESS_TRANSFER_WRITE_BIT = 4096"

datatype CommandQueueOperation = MEM_TransferCommand | MEM_GraphicsCommand

record VkImageMemoryBarrier =
  barrier_oldLayout :: VkImageLayout
  barrier_newLayout :: VkImageLayout
  barrier_aspectMask :: u32
  barrier_baseMipLevel :: u32
  barrier_levelCount :: u32
  barrier_baseArrayLayer :: u32
  barrier_layerCount :: u32
  barrier_srcAccessMask :: u32
  barrier_dstAccessMask :: u32
  barrier_srcQueueFamilyIndex :: u32
  barrier_dstQueueFamilyIndex :: u32

record GraphicsHandler =
  transferQueueFamily_index :: u32
  graphicsQueueFamily_index :: u32

text \<open>
  What an image buffer makes the device do: \<open>beginCommandBuffer\<close> and
  \<open>endCommandBuffer\<close> (helpers of the buffer base class, which open and then submit a
  one-shot command buffer on the queue of the given operation) and the barrier recorded
  in between with its source and destination stage.
\<close>

datatype command =
    BeginCommandBuffer CommandQueueOperation
  | CmdPipelineBarrier u32 u32 VkImageMemoryBarrier
  | EndCommandBuffer CommandQueueOperation

record ImageBuffer =
  imageLayout :: VkImageLayout
  imageFormat :: VkFormat
  graphicsHandler :: GraphicsHandler
  commands :: "command list"

definition hasStencilComponent :: "ImageBuffer \<Rightarrow> bool" where
  "hasStencilComponent img \<longleftrightarrow>
     imageFormat img = VK_FORMAT_D32_SFLOAT_S8_UINT \<or> imageFormat img = VK_FORMAT_D24_UNORM_S8_UINT"

text \<open>
  \<open>transitionImageLayout\<close>. The barrier is filled in first; the if/else-if chain picks
  the queue operation, the stages and the access masks, and its final \<open>else\<close> throws
  \<open>std::invalid_argument\<close> before any command buffer is begun.
\<close>

definition transitionImageLayout :: "VkImageLayout \<Rightarrow> ImageBuffer \<Rightarrow> outcome \<times> ImageBuffer" where
  "transitionImageLayout newLayout img =
     (let barrier = \<lparr>
            barrier_oldLayout = imageLayout img,
            barrier_newLayout = newLayout,
            barrier_aspectMask =
              (if newLayout = VK_IMAGE_LAYOUT_DEPTH_STENCIL_ATTACHMENT_OPTIMAL
               then (if hasStencilComponent img
                     then VK_IMAGE_ASPECT_DEPTH_BIT OR VK_IMAGE_ASPECT_STENCIL_BIT
                     else VK_IMAGE_ASPECT_DEPTH_BIT)
               else VK_IMAGE_ASPECT_COLOR_BIT),
            barrier_baseMipLevel = 0,
            barrier_levelCount = 1,
            barrier_baseArrayLayer = 0,
            barrier_layerCount = 1,
            barrier_srcAccessMask = 0,
            barrier_dstAccessMask = 0,
            barrier_srcQueueFamilyIndex = 0,
            barrier_dstQueueFamilyIndex = 0 \<rparr>;
          submit = (\<lambda>queueOperation sourceStage destinationStage barrier.
            (Returned,
             img \<lparr> commands := commands img @
                     [BeginCommandBuffer queueOperation,
                      CmdPipelineBarrier sourceStage destinationStage barrier,
                      EndCommandBuffer queueOperation],
                   imageLayout := newLayout \<rparr>))
      in
      if imageLayout img = VK_IMAGE_LAYOUT_UNDEFINED \<and> newLayout = VK_IMAGE_LAYOUT_TRANSFER_DST_OPTIMAL
      then submit MEM_TransferCommand VK_PIPELINE_STAGE_TOP_OF_PIPE_BIT VK_PIPELINE_STAGE_TRANSFER_BIT
             (barrier \<lparr> barrier_srcAccessMask := 0,
                        barrier_dstAccessMask := VK_ACCESS_TRANSFER_WRITE_BIT,
                        barrier_srcQueueFamilyIndex := transferQueueFamily_index (graphicsHandler img),
                        barrier_dstQueueFamilyIndex := transferQueueFamily_index (graphicsHandler img) \<rparr>)
      else if imageLayout img = VK_IMAGE_LAYOUT_TRANSFER_DST_OPTIMAL
              \<and> newLayout = VK_IMAGE_LAYOUT_SHADER_READ_ONLY_OPTIMAL
      then submit MEM_GraphicsCommand VK_PIPELINE_STAGE_TRANSFER_BIT VK_PIPELINE_STAGE_FRAGMENT_SHADER_BIT
             (barrier \<lparr> barrier_srcAccessMask := VK_ACCESS_TRANSFER_WRITE_BIT,
                        barrier_dstAccessMask := VK_ACCESS_SHADER_READ_BIT,
                        barrier_srcQueueFamilyIndex := transferQueueFamily_index (graphicsHandler img),
                        barrier_dstQueueFamilyIndex := graphicsQueueFamily_index (graphicsHandler img) \<rparr>)
      else if imageLayout img = VK_IMAGE_LAYOUT_UNDEFINED
              \<and> newLayout = VK_IMAGE_LAYOUT_DEPTH_STENCIL_ATTACHMENT_OPTIMAL
      then submit MEM_GraphicsCommand VK_PIPELINE_STAGE_TOP_OF_PIPE_BIT VK_PIPELINE_STAGE_EARLY_FRAGMENT_TESTS_BIT
             (barrier \<lparr> barrier_srcAccessMask := 0,
                        barrier_dstAccessMask := VK_ACCESS_DEPTH_STENCIL_ATTACHMENT_READ_BIT
                                                 OR VK_ACCESS_DEPTH_STENCIL_ATTACHMENT_WRITE_BIT,
                        barrier_srcQueueFamilyIndex := transferQueueFamily_index (graphicsHandler img),
                        barrier_dstQueueFamilyIndex := graphicsQueueFamily_index (graphicsHandler img) \<rparr>)
      else (Thrown (InvalidArgument ''unsupported layout transition!''), img))"

text \<open>The three supported (from, to) layout pairs.\<close>

definition supportedTransition :: "VkImageLayout \<Rightarrow> VkImageLayout \<Rightarrow> bool" where
  "supportedTransition fromLayout toLayout \<longleftrightarrow>
     (fromLayout, toLayout) \<in>
       {(VK_IMAGE_LAYOUT_UNDEFINED, VK_IMAGE_LAYOUT_TRANSFER_DST_OPTIMAL),
        (VK_IMAGE_LAYOUT_TRANSFER_DST_OPTIMAL, VK_IMAGE_LAYOUT_SHADER_READ_ONLY_OPTIMAL),
        (VK_IMAGE_LAYOUT_UNDEFINED, VK_IMAGE_LAYOUT_DEPTH_STENCIL_ATTACHMENT_OPTIMAL)}"

section \<open>Frame slots: sync objects and the draw operation\<close>

text \<open>
  A fence as the CPU sees it. \<open>NullFence\<close> is \<open>VK_NULL_HANDLE\<close> (a vector slot
  that \<open>resize\<close> filled and no create call has written yet). \<open>Pending\<close> is an
  unsignaled fence that was handed to a successful queue submission, which signals it
  on completion.
\<close>

datatype fence = NullFence | Unsignaled | Signaled | Pending

text \<open>
  \<open>vkWaitForFences\<close> on one fence with \<open>waitAll\<close> and timeout \<open>UINT64_MAX\<close>: it
  returns at once on a signaled fence, returns once the outstanding submission has
  signaled a pending fence, and never returns on an unsignaled fence nothing will signal.
\<close>

datatype wait_result = ReturnsAtOnce | ReturnsWhenSignaled | NeverReturns | InvalidFence

definition vkWaitForFences :: "fence \<Rightarrow> wait_result" where
  "vkWaitForFences f =
     (case f of Signaled \<Rightarrow> ReturnsAtOnce | Pending \<Rightarrow> ReturnsWhenSignaled
      | Unsignaled \<Rightarrow> NeverReturns | NullFence \<Rightarrow> InvalidFence)"

definition VK_FENCE_CREATE_SIGNALED_BIT :: u32 where "VK_FENCE_CREATE_SIGNALED_BIT = 1"

text \<open>The fence a successful \<open>vkCreateFence\<close> makes from the create-info flags.\<close>

definition vkCreateFence :: "u32 \<Rightarrow> fence" where
  "vkCreateFence flags = (if flags AND VK_FENCE_CREATE_SIGNALED_BIT \<noteq> 0 then Signaled else Unsignaled)"

text \<open>The calls the context makes, in order: driver calls, logging, and its own helpers.\<close>

datatype call =
    Call_vkCreateSemaphore
  | Call_vkCreateFence u32
  | Call_vkWaitForFences nat
  | Call_vkAcquireNextImageKHR nat
  | Call_vkResetFences nat
  | Call_vkResetCommandBuffer nat
  | Call_vkBeginCommandBuffer nat
  | RenderPassCommands nat nat
  | Call_vkEndCommandBuffer nat
  | Call_updateUniformBuffer nat
  | Call_vkQueueSubmit nat
  | Call_vkQueuePresentKHR nat
  | Call_recreateSwapChain
  | LogInfo string
  | LogError string
  | LogFatal string

record GraphicsContext =
  currentFrame :: nat
  framebufferResized :: bool
  imageAvailableSemaphores :: "bool list"
  renderFinishedSemaphores :: "bool list"
  inFlightFences :: "fence list"
  calls :: "call list"

definition emit :: "call \<Rightarrow> GraphicsContext \<Rightarrow> GraphicsContext" where
  "emit c ctx = ctx \<lparr> calls := calls ctx @ [c] \<rparr>"

text \<open>\<open>std::vector::resize\<close>: keep the first \<open>n\<close> elements, pad with the default value.\<close>

definition resize :: "nat \<Rightarrow> 'a \<Rightarrow> 'a list \<Rightarrow> 'a list" where
  "resize n x xs = take n xs @ replicate (n - length xs) x"

text \<open>
  \<open>createSyncObjects\<close>. \<open>MAX_FRAMES_IN_FLIGHT\<close> is a constant of the header and is a
  parameter here. \<open>results i\<close> are the driver's answers to the three create calls of
  iteration \<open>i\<close>; the \<open>||\<close> chain stops at the first failure. A semaphore slot is
  \<open>True\<close> once created.
\<close>

definition createSyncObjects_fail :: "GraphicsContext \<Rightarrow> outcome \<times> GraphicsContext" where
  "createSyncObjects_fail ctx =
     (Thrown (RuntimeError ''failed to create synchronization objects for a frame!''),
      emit (LogFatal ''failed to create synchronization objects for a frame!'') ctx)"

fun createSyncObjects_loop ::
  "(nat \<Rightarrow> VkResult \<times> VkResult \<times> VkResult) \<Rightarrow> u32 \<Rightarrow> nat list \<Rightarrow> GraphicsContext
     \<Rightarrow> outcome \<times> GraphicsContext" where
  "createSyncObjects_loop results fenceInfo_flags [] ctx = (Returned, ctx)"
| "createSyncObjects_loop results fenceInfo_flags (i # rest) ctx =
     (let ctx = emit Call_vkCreateSemaphore ctx in
      if fst (results i) \<noteq> VK_SUCCESS then createSyncObjects_fail ctx
      else
        let ctx = ctx \<lparr> imageAvailableSemaphores := (imageAvailableSemaphores ctx)[i := True] \<rparr>;
            ctx = emit Call_vkCreateSemaphore ctx in
        if fst (snd (results i)) \<noteq> VK_SUCCESS then createSyncObjects_fail ctx
        else
          let ctx = ctx \<lparr> renderFinishedSemaphores := (renderFinishedSemaphores ctx)[i := True] \<rparr>;
              ctx = emit (Call_vkCreateFence fenceInfo_flags) ctx in
          if snd (snd (results i)) \<noteq> VK_SUCCESS then createSyncObjects_fail ctx
          else createSyncObjects_loop results fenceInfo_flags rest
                 (ctx \<lparr> inFlightFences := (inFlightFences ctx)[i := vkCreateFence fenceInfo_flags] \<rparr>))"

definition createSyncObjects ::
  "nat \<Rightarrow> (nat \<Rightarrow> VkResult \<times> VkResult \<times> VkResult) \<Rightarrow> GraphicsContext \<Rightarrow> outcome \<times> GraphicsContext" where
  "createSyncObjects MAX_FRAMES_IN_FLIGHT results ctx =
     (let ctx = ctx \<lparr>
            imageAvailableSemaphores := resize MAX_FRAMES_IN_FLIGHT False (imageAvailableSemaphores ctx),
            renderFinishedSemaphores := resize MAX_FRAMES_IN_FLIGHT False (renderFinishedSemaphores ctx),
            inFlightFences := resize MAX_FRAMES_IN_FLIGHT NullFence (inFlightFences ctx) \<rparr>;
          fenceInfo_flags = VK_FENCE_CREATE_SIGNALED_BIT
      in case createSyncObjects_loop results fenceInfo_flags [0 ..< MAX_FRAMES_IN_FLIGHT] ctx of
           (Returned, ctx) \<Rightarrow> (Returned, emit (LogInfo ''semaphores created Successfully!'') ctx)
         | (out, ctx) \<Rightarrow> (out, ctx))"

text \<open>
  What the driver and the helpers answer during one call of \<open>Draw\<close>.
  \<open>recreateOutcome\<close> is how \<open>recreateSwapChain\<close> ends when it is called: it waits in a
  loop while the window is minimised and rebuilds the chain, so it may return, throw or
  never return.
\<close>

record FrameResults =
  acquireResult :: VkResult
  acquiredImageIndex :: nat
  beginResult :: VkResult
  endResult :: VkResult
  submitResult :: VkResult
  presentResult :: VkResult
  recreateOutcome :: outcome

definition recreateSwapChain :: "FrameResults \<Rightarrow> GraphicsContext \<Rightarrow> outcome \<times> GraphicsContext" where
  "recreateSwapChain r ctx = (recreateOutcome r, emit Call_recreateSwapChain ctx)"

definition recordCommandBuffer ::
  "FrameResults \<Rightarrow> nat \<Rightarrow> nat \<Rightarrow> GraphicsContext \<Rightarrow> outcome \<times> GraphicsContext" where
  "recordCommandBuffer r commandBuffer imageIndex ctx =
     (let ctx = emit (Call_vkBeginCommandBuffer commandBuffer) ctx in
      if beginResult r \<noteq> VK_SUCCESS
      then (Thrown (RuntimeError ''failed to begin recording command buffer!''),
            emit (LogFatal ''failed to begin recording command buffer!'') ctx)
      else
        let ctx = emit (RenderPassCommands commandBuffer imageIndex) ctx;
            ctx = emit (Call_vkEndCommandBuffer commandBuffer) ctx in
        if endResult r \<noteq> VK_SUCCESS
        then (Thrown (RuntimeError ''failed to record command buffer!''),
              emit (LogFatal ''failed to record command buffer!'') ctx)
        else (Returned, ctx))"

text \<open>
  \<open>Draw\<close>, cut into its consecutive parts, last part first. The last statement,
  \<open>currentFrame = (currentFrame + 1) % MAX_FRAMES_IN_FLIGHT\<close>; a remainder by zero
  is undefined in C++ and ends the call with an error here.
\<close>

definition Draw_advance :: "nat \<Rightarrow> GraphicsContext \<Rightarrow> outcome \<times> GraphicsContext" where
  "Draw_advance MAX_FRAMES_IN_FLIGHT ctx =
     (if MAX_FRAMES_IN_FLIGHT = 0 then (Thrown (RuntimeError ''integer division by zero''), ctx)
      else (Returned, ctx \<lparr> currentFrame := (currentFrame ctx + 1) mod MAX_FRAMES_IN_FLIGHT \<rparr>))"

text \<open>From \<open>vkQueuePresentKHR\<close> to the end.\<close>

definition Draw_present :: "nat \<Rightarrow> FrameResults \<Rightarrow> GraphicsContext \<Rightarrow> outcome \<times> GraphicsContext" where
  "Draw_present MAX_FRAMES_IN_FLIGHT r ctx =
     (let ctx = emit (Call_vkQueuePresentKHR (acquiredImageIndex r)) ctx;
          result = presentResult r
      in
      if result = VK_ERROR_OUT_OF_DATE_KHR \<or> result = VK_SUBOPTIMAL_KHR \<or> framebufferResized ctx
      then (case recreateSwapChain r (ctx \<lparr> framebufferResized := False \<rparr>) of
              (Returned, ctx) \<Rightarrow> Draw_advance MAX_FRAMES_IN_FLIGHT ctx
            | (out, ctx) \<Rightarrow> (out, ctx))
      else if result \<noteq> VK_SUCCESS
      then (Thrown (RuntimeError ''failed to present swap chain image!''),
            emit (LogFatal ''failed to present swap chain image!'') ctx)
      else Draw_advance MAX_FRAMES_IN_FLIGHT ctx)"

text \<open>From \<open>vkResetFences\<close> to the submission.\<close>

definition Draw_submit :: "nat \<Rightarrow> FrameResults \<Rightarrow> GraphicsContext \<Rightarrow> outcome \<times> GraphicsContext" where
  "Draw_submit MAX_FRAMES_IN_FLIGHT r ctx =
     (let ctx = emit (Call_vkResetFences (currentFrame ctx))
                  (ctx \<lparr> inFlightFences := (inFlightFences ctx)[currentFrame ctx := Unsignaled] \<rparr>);
          ctx = emit (Call_vkResetCommandBuffer (currentFrame ctx)) ctx
      in
      case recordCommandBuffer r (currentFrame ctx) (acquiredImageIndex r) ctx of
        (Returned, ctx) \<Rightarrow>
          (let ctx = emit (Call_updateUniformBuffer (currentFrame ctx)) ctx;
               ctx = emit (Call_vkQueueSubmit (currentFrame ctx)) ctx
           in
           if submitResult r \<noteq> VK_SUCCESS
           then (Thrown (RuntimeError ''failed to submit draw command buffer!''),
                 emit (LogFatal ''failed to submit draw command buffer!'') ctx)
           else Draw_present MAX_FRAMES_IN_FLIGHT r
                  (ctx \<lparr> inFlightFences := (inFlightFences ctx)[currentFrame ctx := Pending] \<rparr>))
      | (out, ctx) \<Rightarrow> (out, ctx))"

text \<open>
  The acquire and its result handling. The test for \<open>VK_ERROR_OUT_OF_DATE_KHR\<close> sits
  in the \<open>else\<close> branch of \<open>result != VK_SUCCESS\<close>, as in the source.
\<close>

definition Draw_acquire :: "nat \<Rightarrow> FrameResults \<Rightarrow> GraphicsContext \<Rightarrow> outcome \<times> GraphicsContext" where
  "Draw_acquire MAX_FRAMES_IN_FLIGHT r ctx =
     (let ctx = emit (Call_vkAcquireNextImageKHR (currentFrame ctx)) ctx;
          result = acquireResult r
      in
      if result \<noteq> VK_SUCCESS
      then Draw_submit MAX_FRAMES_IN_FLIGHT r (emit (LogError ''failed to acquireNextImage!'') ctx)
      else if result = VK_ERROR_OUT_OF_DATE_KHR
      then recreateSwapChain r ctx
      else if result \<noteq> VK_SUCCESS \<and> result \<noteq> VK_SUBOPTIMAL_KHR
      then (Thrown (RuntimeError ''failed to acquire swap chain image!''),
            emit (LogError ''failed to acquire swap chain image!'') ctx)
      else Draw_submit MAX_FRAMES_IN_FLIGHT r ctx)"

text \<open>
  \<open>Draw\<close> from its first statement, the wait on the current slot's fence. Reading
  \<open>inFlightFences[currentFrame]\<close> beyond the vector is \<open>OutOfRange\<close>, and
  waiting on \<open>VK_NULL_HANDLE\<close> is invalid use of the driver; both end the call with
  an error. A wait that is never released leaves the call \<open>Blocked\<close>.
\<close>

definition Draw :: "nat \<Rightarrow> FrameResults \<Rightarrow> GraphicsContext \<Rightarrow> outcome \<times> GraphicsContext" where
  "Draw MAX_FRAMES_IN_FLIGHT r ctx =
     (if currentFrame ctx \<ge> length (inFlightFences ctx) then (Thrown OutOfRange, ctx)
      else
        let ctx = emit (Call_vkWaitForFences (currentFrame ctx)) ctx in
        case vkWaitForFences (inFlightFences ctx ! currentFrame ctx) of
          ReturnsAtOnce \<Rightarrow> Draw_acquire MAX_FRAMES_IN_FLIGHT r ctx
        | ReturnsWhenSignaled \<Rightarrow>
            Draw_acquire MAX_FRAMES_IN_FLIGHT r
              (ctx \<lparr> inFlightFences := (inFlightFences ctx)[currentFrame ctx := Signaled] \<rparr>)
        | NeverReturns \<Rightarrow> (Blocked, ctx)
        | InvalidFence \<Rightarrow> (Thrown (InvalidArgument ''vkWaitForFences on VK_NULL_HANDLE''), ctx))"

text \<open>
  Modelled from the spec: the application loop that calls \<open>Draw\<close> is not among the
  sources. The spec's external interface says the draw operation is called once per
  application tick; \<open>drawFrames\<close> runs it once per element of the list and stops at the
  first call that does not return.
\<close>

fun drawFrames :: "nat \<Rightarrow> FrameResults list \<Rightarrow> GraphicsContext \<Rightarrow> outcome \<times> GraphicsContext" where
  "drawFrames MAX_FRAMES_IN_FLIGHT [] ctx = (Returned, ctx)"
| "drawFrames MAX_FRAMES_IN_FLIGHT (r # rs) ctx =
     (case Draw MAX_FRAMES_IN_FLIGHT r ctx of
        (Returned, ctx) \<Rightarrow> drawFrames MAX_FRAMES_IN_FLIGHT rs ctx
      | (out, ctx) \<Rightarrow> (out, ctx))"

text \<open>The calls a run added to the trace.\<close>

definition newCalls :: "GraphicsContext \<Rightarrow> GraphicsContext \<Rightarrow> call list" where
  "newCalls before after = drop (length (calls before)) (calls after)"

section \<open>Surface format selection\<close>

definition idealFormat :: VkSurfaceFormatKHR where
  "idealFormat = \<lparr> format = VK_FORMAT_B8G8R8A8_SRGB, colorSpace = VK_COLOR_SPACE_SRGB_NONLINEAR_KHR \<rparr>"

lemma chooseSwapSurfaceFormat_loop_Some:
  "chooseSwapSurfaceFormat_loop fs = Some f \<Longrightarrow> f = idealFormat \<and> idealFormat \<in> set fs"
  by (induction fs) (auto simp: idealFormat_def split: if_splits)

lemma chooseSwapSurfaceFormat_loop_None:
  "chooseSwapSurfaceFormat_loop fs = None \<Longrightarrow> idealFormat \<notin> set fs"
  by (induction fs) (auto simp: idealFormat_def split: if_splits)

text \<open>
  C6. For every non-empty list of available surface formats, selection does not fail:
  it returns the ideal format (B8G8R8A8 sRGB with the sRGB non-linear colour space)
  when the list contains it, and the first reported format otherwise.
\<close>

theorem chooseSwapSurfaceFormat_ideal_or_first:
  assumes "availableFormats \<noteq> []"
  shows "chooseSwapSurfaceFormat availableFormats =
           Inr (if idealFormat \<in> set availableFormats then idealFormat else hd availableFormats)"
proof (cases "chooseSwapSurfaceFormat_loop availableFormats")
  case None
  from assms obtain f0 rest where shape: "availableFormats = f0 # rest"
    by (cases availableFormats) auto
  have "chooseSwapSurfaceFormat availableFormats = Inr (hd availableFormats)"
    unfolding chooseSwapSurfaceFormat_def None by (simp add: shape)
  with chooseSwapSurfaceFormat_loop_None [OF None] show ?thesis
    by simp
next
  case (Some f)
  from chooseSwapSurfaceFormat_loop_Some [OF Some] show ?thesis
    by (simp add: chooseSwapSurfaceFormat_def Some)
qed

theorem chooseSwapSurfaceFormat_ideal_or_first_witness:
  "[\<lparr> format = 44, colorSpace = 0 \<rparr>, \<lparr> format = 50, colorSpace = 0 \<rparr>] \<noteq> []
   \<and> chooseSwapSurfaceFormat [\<lparr> format = 44, colorSpace = 0 \<rparr>, \<lparr> format = 50, colorSpace = 0 \<rparr>]
       = Inr \<lparr> format = 50, colorSpace = 0 \<rparr>
   \<and> chooseSwapSurfaceFormat [\<lparr> format = 44, colorSpace = 0 \<rparr>, \<lparr> format = 37, colorSpace = 0 \<rparr>]
       = Inr \<lparr> format = 44, colorSpace = 0 \<rparr>"
  using chooseSwapSurfaceFormat_ideal_or_first
          [of "[\<lparr> format = 44, colorSpace = 0 \<rparr>, \<lparr> format = 50, colorSpace = 0 \<rparr>]"]
        chooseSwapSurfaceFormat_ideal_or_first
          [of "[\<lparr> format = 44, colorSpace = 0 \<rparr>, \<lparr> format = 37, colorSpace = 0 \<rparr>]"]
  by (simp add: idealFormat_def VK_FORMAT_B8G8R8A8_SRGB_def VK_COLOR_SPACE_SRGB_NONLINEAR_KHR_def)

section \<open>Queue family selection: which index wins\<close>

lemma lastBelow_Some_iff:
  "lastBelow P n = Some g \<longleftrightarrow> g < n \<and> P g \<and> (\<forall>j. g < j \<and> j < n \<longrightarrow> \<not> P j)"
proof (induction n)
  case 0
  then show ?case by simp
next
  case (Suc n)
  show ?case
  proof (cases "P n")
    case True
    then show ?thesis
      by (auto simp: less_Suc_eq intro: antisym[OF leI leI] dest: less_antisym) 
  next
    case False
    with Suc show ?thesis
      by (auto simp: less_Suc_eq)
  qed
qed

lemma lastBelow_None_iff:
  "lastBelow P n = None \<longleftrightarrow> (\<forall>j<n. \<not> P j)"
  by (induction n) (auto simp: less_Suc_eq)

lemma findQueueFamilies_body_indicesAfter:
  "i < length fams \<Longrightarrow>
   findQueueFamilies_body (fams ! i) i (indicesAfter fams i) = indicesAfter fams (Suc i)"
  by (simp add: findQueueFamilies_body_def indicesAfter_def Let_def)

lemma findQueueFamilies_loop_indicesAfter:
  "drop i fams = qs \<Longrightarrow> i \<le> length fams \<Longrightarrow>
   \<exists>n. i \<le> n \<and> n \<le> length fams \<and> (qs \<noteq> [] \<longrightarrow> i < n)
     \<and> findQueueFamilies_loop qs i (indicesAfter fams i) = indicesAfter fams n
     \<and> (n < length fams \<longrightarrow> isComplete (indicesAfter fams n))
     \<and> (\<forall>m. i < m \<and> m < n \<longrightarrow> \<not> isComplete (indicesAfter fams m))"
proof (induction qs arbitrary: i)
  case Nil
  then have "i = length fams" by simp
  then show ?case by auto
next
  case (Cons q rest)
  from Cons.prems have lt: "i < length fams"
    by (metis drop_eq_Nil list.distinct(1) not_le)
  from Cons.prems lt have q: "q = fams ! i" and rest: "drop (Suc i) fams = rest"
    by (simp_all add: Cons_nth_drop_Suc [symmetric])
  have body: "findQueueFamilies_body q i (indicesAfter fams i) = indicesAfter fams (Suc i)"
    using findQueueFamilies_body_indicesAfter [OF lt] q by simp
  show ?case
  proof (cases "isComplete (indicesAfter fams (Suc i))")
    case True
    with lt body show ?thesis
      by (intro exI [of _ "Suc i"]) (auto simp: Let_def)
  next
    case False
    from Cons.IH [OF rest] lt obtain n where n:
      "Suc i \<le> n" "n \<le> length fams"
      "findQueueFamilies_loop rest (Suc i) (indicesAfter fams (Suc i)) = indicesAfter fams n"
      "n < length fams \<longrightarrow> isComplete (indicesAfter fams n)"
      "\<forall>m. Suc i < m \<and> m < n \<longrightarrow> \<not> isComplete (indicesAfter fams m)"
      by auto
    have "\<forall>m. i < m \<and> m < n \<longrightarrow> \<not> isComplete (indicesAfter fams m)"
    proof (intro allI impI)
      fix m assume "i < m \<and> m < n"
      then have "m = Suc i \<or> (Suc i < m \<and> m < n)" by auto
      with False n(5) show "\<not> isComplete (indicesAfter fams m)" by auto
    qed
    with n False body show ?thesis
      by (intro exI [of _ n]) (auto simp: Let_def)
  qed
qed

text \<open>
  C3 (as amended). When selection returns, there is a number \<open>n\<close> of scanned families,
  at least one and at most all of them, such that each slot holds the LAST index below
  \<open>n\<close> whose family satisfies the slot's test (none if no such family), the scan
  stopped before the end of the list only with all three slots filled, and at no
  earlier point of the scan were all three slots filled.
\<close>

theorem findQueueFamilies_last_wins:
  assumes "findQueueFamilies queueFamilies = Inr indices"
  shows "\<exists>n. 0 < n \<and> n \<le> length queueFamilies
           \<and> indices = indicesAfter queueFamilies n
           \<and> (n < length queueFamilies \<longrightarrow> isComplete indices)
           \<and> (\<forall>m. 0 < m \<and> m < n \<longrightarrow> \<not> isComplete (indicesAfter queueFamilies m))"
proof -
  from assms have ne: "queueFamilies \<noteq> []"
    and res: "indices = findQueueFamilies_loop queueFamilies 0 noIndices"
    by (auto simp: findQueueFamilies_def split: if_splits)
  have start: "noIndices = indicesAfter queueFamilies 0"
    by (simp add: noIndices_def indicesAfter_def)
  from findQueueFamilies_loop_indicesAfter [of 0 queueFamilies queueFamilies] ne
  show ?thesis unfolding res start by auto
qed

lemma graphics_not_transferOnly: "isGraphicsCapable q \<Longrightarrow> \<not> isTransferOnly q"
proof
  assume g: "isGraphicsCapable q" and t: "isTransferOnly q"
  from g have "(queueFlags q AND 13) AND 1 = 1"
    by (simp add: isGraphicsCapable_def graphicsQueueflags_def VK_QUEUE_GRAPHICS_BIT_def
        VK_QUEUE_TRANSFER_BIT_def VK_QUEUE_SPARSE_BINDING_BIT_def)
  then have "queueFlags q AND 1 = 1"
    by (simp add: and.assoc)
  with t show False
    by (simp add: isTransferOnly_def VK_QUEUE_GRAPHICS_BIT_def)
qed

text \<open>
  C2 (as amended). A device whose only queue family is graphics-capable (graphics,
  transfer and sparse binding) and present-capable resolves graphics and present to
  family 0 and leaves transfer unset, so \<open>isComplete\<close> is false. In general the
  selected graphics and transfer families never alias: the graphics index is a
  graphics-capable family and the transfer index a family without the graphics bit.
\<close>

theorem findQueueFamilies_single_combined_family:
  "(isGraphicsCapable q \<and> isPresentCapable q \<longrightarrow>
      findQueueFamilies [q] =
        Inr \<lparr> graphicsFamily = Some 0, presentFamily = Some 0, transferFamily = None \<rparr>
      \<and> \<not> isComplete \<lparr> graphicsFamily = Some 0, presentFamily = Some 0, transferFamily = None \<rparr>)
   \<and> (findQueueFamilies queueFamilies = Inr indices \<and> graphicsFamily indices = Some g
        \<and> transferFamily indices = Some t \<longrightarrow>
      g \<noteq> t \<and> isGraphicsCapable (queueFamilies ! g) \<and> isTransferOnly (queueFamilies ! t))"
proof (intro conjI impI)
  assume q: "isGraphicsCapable q \<and> isPresentCapable q"
  with graphics_not_transferOnly [of q]
  show "findQueueFamilies [q] =
        Inr \<lparr> graphicsFamily = Some 0, presentFamily = Some 0, transferFamily = None \<rparr>"
    by (simp add: findQueueFamilies_def findQueueFamilies_body_def noIndices_def isComplete_def Let_def)
next
  show "\<not> isComplete \<lparr> graphicsFamily = Some 0, presentFamily = Some 0, transferFamily = None \<rparr>"
    by (simp add: isComplete_def)
next
  assume a: "findQueueFamilies queueFamilies = Inr indices \<and> graphicsFamily indices = Some g
        \<and> transferFamily indices = Some t"
  then have res: "indices = findQueueFamilies_loop queueFamilies 0 noIndices"
    and ne: "queueFamilies \<noteq> []"
    by (auto simp: findQueueFamilies_def split: if_splits)
  from findQueueFamilies_loop_indicesAfter [of 0 queueFamilies queueFamilies]
  obtain n where "indices = indicesAfter queueFamilies n"
    unfolding res by (auto simp: noIndices_def indicesAfter_def)
  with a have "lastBelow (\<lambda>i. isGraphicsCapable (queueFamilies ! i)) n = Some g"
    and "lastBelow (\<lambda>i. isTransferOnly (queueFamilies ! i)) n = Some t"
    by (simp_all add: indicesAfter_def)
  then have G: "isGraphicsCapable (queueFamilies ! g)" and T: "isTransferOnly (queueFamilies ! t)"
    by (simp_all add: lastBelow_Some_iff)
  with graphics_not_transferOnly show "g \<noteq> t" by auto
  from G show "isGraphicsCapable (queueFamilies ! g)" .
  from T show "isTransferOnly (queueFamilies ! t)" .
qed

text \<open>
  The amended C2 at a concrete device: one combined family alone, and the same family
  followed by a dedicated transfer family.
\<close>

theorem findQueueFamilies_single_combined_family_witness:
  "isGraphicsCapable \<lparr> queueFlags = 15, presentSupport = True \<rparr>
   \<and> isPresentCapable \<lparr> queueFlags = 15, presentSupport = True \<rparr>
   \<and> findQueueFamilies [\<lparr> queueFlags = 15, presentSupport = True \<rparr>] =
        Inr \<lparr> graphicsFamily = Some 0, presentFamily = Some 0, transferFamily = None \<rparr>
   \<and> findQueueFamilies [\<lparr> queueFlags = 15, presentSupport = True \<rparr>, \<lparr> queueFlags = 12, presentSupport = False \<rparr>] =
        Inr \<lparr> graphicsFamily = Some 0, presentFamily = Some 0, transferFamily = Some 1 \<rparr>
   \<and> (0::nat) \<noteq> 1"
proof -
  have g: "isGraphicsCapable \<lparr> queueFlags = 15, presentSupport = True \<rparr>"
    and p: "isPresentCapable \<lparr> queueFlags = 15, presentSupport = True \<rparr>"
    by (simp_all add: isGraphicsCapable_def isPresentCapable_def graphicsQueueflags_def
        VK_QUEUE_GRAPHICS_BIT_def VK_QUEUE_TRANSFER_BIT_def VK_QUEUE_SPARSE_BINDING_BIT_def)
  have two: "findQueueFamilies [\<lparr> queueFlags = 15, presentSupport = True \<rparr>, \<lparr> queueFlags = 12, presentSupport = False \<rparr>] =
        Inr \<lparr> graphicsFamily = Some 0, presentFamily = Some 0, transferFamily = Some 1 \<rparr>"
    by (simp add: findQueueFamilies_def findQueueFamilies_body_def noIndices_def isComplete_def Let_def
        isGraphicsCapable_def isPresentCapable_def isTransferOnly_def graphicsQueueflags_def transferQueueflags_def
        VK_QUEUE_GRAPHICS_BIT_def VK_QUEUE_TRANSFER_BIT_def VK_QUEUE_SPARSE_BINDING_BIT_def)
  from findQueueFamilies_single_combined_family
         [of "\<lparr> queueFlags = 15, presentSupport = True \<rparr>"
             "[\<lparr> queueFlags = 15, presentSupport = True \<rparr>, \<lparr> queueFlags = 12, presentSupport = False \<rparr>]"
             "\<lparr> graphicsFamily = Some 0, presentFamily = Some 0, transferFamily = Some 1 \<rparr>" 0 1]
       g p two
  show ?thesis by simp
qed

text \<open>
  C2 as stated fails on the single combined family with flags
  graphics+compute+transfer+sparse (15) and surface support: transfer stays unset and
  the selection is not complete.
\<close>

theorem findQueueFamilies_all_three_alias_counterexample:
  "isGraphicsCapable \<lparr> queueFlags = 15, presentSupport = True \<rparr>
   \<and> isPresentCapable \<lparr> queueFlags = 15, presentSupport = True \<rparr>
   \<and> findQueueFamilies [\<lparr> queueFlags = 15, presentSupport = True \<rparr>]
        \<noteq> Inr \<lparr> graphicsFamily = Some 0, presentFamily = Some 0, transferFamily = Some 0 \<rparr>
   \<and> findQueueFamilies [\<lparr> queueFlags = 15, presentSupport = True \<rparr>]
        = Inr \<lparr> graphicsFamily = Some 0, presentFamily = Some 0, transferFamily = None \<rparr>
   \<and> \<not> isComplete \<lparr> graphicsFamily = Some 0, presentFamily = Some 0, transferFamily = None \<rparr>"
  by (simp add: findQueueFamilies_def findQueueFamilies_body_def noIndices_def isComplete_def Let_def
        isGraphicsCapable_def isPresentCapable_def isTransferOnly_def graphicsQueueflags_def transferQueueflags_def
        VK_QUEUE_GRAPHICS_BIT_def VK_QUEUE_TRANSFER_BIT_def VK_QUEUE_SPARSE_BINDING_BIT_def)

text \<open>
  C3 as stated fails: families 0 and 1 are both graphics- and present-capable, family 2
  is transfer-only. Family 0 is the first to satisfy the graphics and the present test,
  yet index 1 is selected for both.
\<close>

theorem findQueueFamilies_first_wins_counterexample:
  "isGraphicsCapable \<lparr> queueFlags = 13, presentSupport = True \<rparr>
   \<and> isPresentCapable \<lparr> queueFlags = 13, presentSupport = True \<rparr>
   \<and> findQueueFamilies [\<lparr> queueFlags = 13, presentSupport = True \<rparr>,
                         \<lparr> queueFlags = 13, presentSupport = True \<rparr>,
                         \<lparr> queueFlags = 12, presentSupport = False \<rparr>]
       = Inr \<lparr> graphicsFamily = Some 1, presentFamily = Some 1, transferFamily = Some 2 \<rparr>"
  by (simp add: findQueueFamilies_def findQueueFamilies_body_def noIndices_def isComplete_def Let_def
        isGraphicsCapable_def isPresentCapable_def isTransferOnly_def graphicsQueueflags_def transferQueueflags_def
        VK_QUEUE_GRAPHICS_BIT_def VK_QUEUE_TRANSFER_BIT_def VK_QUEUE_SPARSE_BINDING_BIT_def)

text \<open>
  The amended C3 on four families: the scan stops after the third, and the fourth
  (graphics-capable again) is never looked at.
\<close>

theorem findQueueFamilies_last_wins_witness:
  "findQueueFamilies [\<lparr> queueFlags = 13, presentSupport = True \<rparr>,
                      \<lparr> queueFlags = 13, presentSupport = True \<rparr>,
                      \<lparr> queueFlags = 12, presentSupport = False \<rparr>,
                      \<lparr> queueFlags = 13, presentSupport = True \<rparr>]
     = Inr \<lparr> graphicsFamily = Some 1, presentFamily = Some 1, transferFamily = Some 2 \<rparr>
   \<and> (\<exists>n. 0 < n \<and> n \<le> 4
         \<and> \<lparr> graphicsFamily = Some 1, presentFamily = Some 1, transferFamily = Some 2 \<rparr>
             = indicesAfter [\<lparr> queueFlags = 13, presentSupport = True \<rparr>,
                      \<lparr> queueFlags = 13, presentSupport = True \<rparr>,
                      \<lparr> queueFlags = 12, presentSupport = False \<rparr>,
                      \<lparr> queueFlags = 13, presentSupport = True \<rparr>] n
         \<and> n < 4)"
proof -
  let ?fams = "[\<lparr> queueFlags = 13, presentSupport = True \<rparr>,
                      \<lparr> queueFlags = 13, presentSupport = True \<rparr>,
                      \<lparr> queueFlags = 12, presentSupport = False \<rparr>,
                      \<lparr> queueFlags = 13, presentSupport = True \<rparr>]"
  let ?r = "\<lparr> graphicsFamily = Some 1, presentFamily = Some 1, transferFamily = Some (2::nat) \<rparr>"
  have run: "findQueueFamilies ?fams = Inr ?r"
    by (simp add: findQueueFamilies_def findQueueFamilies_body_def noIndices_def isComplete_def Let_def
        isGraphicsCapable_def isPresentCapable_def isTransferOnly_def graphicsQueueflags_def transferQueueflags_def
        VK_QUEUE_GRAPHICS_BIT_def VK_QUEUE_TRANSFER_BIT_def VK_QUEUE_SPARSE_BINDING_BIT_def)
  from findQueueFamilies_last_wins [OF run] obtain n where n:
    "0 < n" "n \<le> length ?fams" "?r = indicesAfter ?fams n"
    "\<forall>m. 0 < m \<and> m < n \<longrightarrow> \<not> isComplete (indicesAfter ?fams m)"
    by blast
  have c3: "isComplete (indicesAfter ?fams 3)"
    by (simp add: indicesAfter_def isComplete_def numeral_3_eq_3
        isGraphicsCapable_def isPresentCapable_def isTransferOnly_def graphicsQueueflags_def transferQueueflags_def
        VK_QUEUE_GRAPHICS_BIT_def VK_QUEUE_TRANSFER_BIT_def VK_QUEUE_SPARSE_BINDING_BIT_def)
  with n(4) have "\<not> 3 < n" by auto
  then have "n < 4" by simp
  with n(1,3) have "\<exists>n. 0 < n \<and> n \<le> 4 \<and> ?r = indicesAfter ?fams n \<and> n < 4"
    by (intro exI [of _ n]) simp
  with run show ?thesis by (rule conjI)
qed

section \<open>Unsupported layout transitions\<close>

text \<open>
  C4. For every image buffer and requested layout whose (current layout, new layout)
  pair is not one of the three supported pairs, the transition leaves with the
  "unsupported layout transition!" error and the image buffer is exactly as before: no
  command buffer was begun, no barrier recorded, nothing submitted, and the layout is
  unchanged.
\<close>

theorem transitionImageLayout_unsupported:
  assumes "\<not> supportedTransition (imageLayout img) newLayout"
  shows "transitionImageLayout newLayout img =
           (Thrown (InvalidArgument ''unsupported layout transition!''), img)"
  using assms by (simp add: transitionImageLayout_def supportedTransition_def Let_def)

text \<open>The supported pairs, for contrast: one command buffer with one barrier is submitted.\<close>

lemma transitionImageLayout_supported:
  assumes "supportedTransition (imageLayout img) newLayout"
  shows "\<exists>queueOperation sourceStage destinationStage barrier.
           transitionImageLayout newLayout img =
             (Returned, img \<lparr> commands := commands img @
                     [BeginCommandBuffer queueOperation,
                      CmdPipelineBarrier sourceStage destinationStage barrier,
                      EndCommandBuffer queueOperation],
                   imageLayout := newLayout \<rparr>)"
  using assms by (auto simp add: transitionImageLayout_def supportedTransition_def Let_def)

text \<open>C4 at the pair ShaderReadOnly to Undefined.\<close>

theorem transitionImageLayout_unsupported_witness:
  "\<not> supportedTransition VK_IMAGE_LAYOUT_SHADER_READ_ONLY_OPTIMAL VK_IMAGE_LAYOUT_UNDEFINED
   \<and> transitionImageLayout VK_IMAGE_LAYOUT_UNDEFINED
        \<lparr> imageLayout = VK_IMAGE_LAYOUT_SHADER_READ_ONLY_OPTIMAL, imageFormat = 43,
          graphicsHandler = \<lparr> transferQueueFamily_index = 1, graphicsQueueFamily_index = 0 \<rparr>,
          commands = [] \<rparr>
       = (Thrown (InvalidArgument ''unsupported layout transition!''),
          \<lparr> imageLayout = VK_IMAGE_LAYOUT_SHADER_READ_ONLY_OPTIMAL, imageFormat = 43,
            graphicsHandler = \<lparr> transferQueueFamily_index = 1, graphicsQueueFamily_index = 0 \<rparr>,
            commands = [] \<rparr>)"
proof -
  have h: "\<not> supportedTransition VK_IMAGE_LAYOUT_SHADER_READ_ONLY_OPTIMAL VK_IMAGE_LAYOUT_UNDEFINED"
    by (simp add: supportedTransition_def VK_IMAGE_LAYOUT_SHADER_READ_ONLY_OPTIMAL_def
        VK_IMAGE_LAYOUT_UNDEFINED_def VK_IMAGE_LAYOUT_TRANSFER_DST_OPTIMAL_def
        VK_IMAGE_LAYOUT_DEPTH_STENCIL_ATTACHMENT_OPTIMAL_def)
  from transitionImageLayout_unsupported
        [of "\<lparr> imageLayout = VK_IMAGE_LAYOUT_SHADER_READ_ONLY_OPTIMAL, imageFormat = 43,
          graphicsHandler = \<lparr> transferQueueFamily_index = 1, graphicsQueueFamily_index = 0 \<rparr>,
          commands = [] \<rparr>" VK_IMAGE_LAYOUT_UNDEFINED] h
  show ?thesis by simp
qed

section \<open>Swapchain extent\<close>

lemma std_clamp_max_min: "lo \<le> hi \<Longrightarrow> std_clamp v lo hi = max lo (min hi v)"
  by (auto simp: std_clamp_def max_def min_def)

text \<open>
  C5. Extent selection returns the surface's current extent when its width is not the
  sentinel \<open>0xFFFFFFFF\<close>; otherwise it returns the window's framebuffer size
  (converted to \<open>uint32_t\<close>) with width and height each clamped to the surface's
  range from minimum to maximum extent.
\<close>

theorem chooseSwapExtent_current_or_clamped:
  "(width (currentExtent caps) \<noteq> 0xFFFFFFFF \<longrightarrow>
      chooseSwapExtent caps framebufferSize = currentExtent caps)
   \<and> (width (currentExtent caps) = 0xFFFFFFFF
        \<and> width (minImageExtent caps) \<le> width (maxImageExtent caps)
        \<and> height (minImageExtent caps) \<le> height (maxImageExtent caps) \<longrightarrow>
      chooseSwapExtent caps framebufferSize =
        \<lparr> width = max (width (minImageExtent caps))
                    (min (width (maxImageExtent caps)) (word_of_int (fst framebufferSize))),
          height = max (height (minImageExtent caps))
                    (min (height (maxImageExtent caps)) (word_of_int (snd framebufferSize))) \<rparr>)"
  by (simp add: chooseSwapExtent_def Let_def std_clamp_max_min)

text \<open>
  C5 at the spec's example (range (1,1) to (4096,4096), sentinel, framebuffer
  1920 by 1080) and at a surface with the fixed extent 800 by 600.
\<close>

theorem chooseSwapExtent_current_or_clamped_witness:
  "chooseSwapExtent
     \<lparr> minImageCount = 2, maxImageCount = 8,
       currentExtent = \<lparr> width = 0xFFFFFFFF, height = 0xFFFFFFFF \<rparr>,
       minImageExtent = \<lparr> width = 1, height = 1 \<rparr>,
       maxImageExtent = \<lparr> width = 4096, height = 4096 \<rparr>,
       currentTransform = 1 \<rparr> (1920, 1080)
     = \<lparr> width = 1920, height = 1080 \<rparr>
   \<and> chooseSwapExtent
     \<lparr> minImageCount = 2, maxImageCount = 8,
       currentExtent = \<lparr> width = 800, height = 600 \<rparr>,
       minImageExtent = \<lparr> width = 1, height = 1 \<rparr>,
       maxImageExtent = \<lparr> width = 4096, height = 4096 \<rparr>,
       currentTransform = 1 \<rparr> (1920, 1080)
     = \<lparr> width = 800, height = 600 \<rparr>"
  using chooseSwapExtent_current_or_clamped
     [of "\<lparr> minImageCount = 2, maxImageCount = 8,
       currentExtent = \<lparr> width = 0xFFFFFFFF, height = 0xFFFFFFFF \<rparr>,
       minImageExtent = \<lparr> width = 1, height = 1 \<rparr>,
       maxImageExtent = \<lparr> width = 4096, height = 4096 \<rparr>,
       currentTransform = 1 \<rparr>" "(1920, 1080)"]
    chooseSwapExtent_current_or_clamped
     [of "\<lparr> minImageCount = 2, maxImageCount = 8,
       currentExtent = \<lparr> width = 800, height = 600 \<rparr>,
       minImageExtent = \<lparr> width = 1, height = 1 \<rparr>,
       maxImageExtent = \<lparr> width = 4096, height = 4096 \<rparr>,
       currentTransform = 1 \<rparr>" "(1920, 1080)"]
  by simp

section \<open>Swapchain creation\<close>

text \<open>What a successful \<open>createSwapChain\<close> has passed to the driver.\<close>

lemma createSwapChain_Inr:
  assumes "createSwapChain swapChainSupport framebufferSize queueFamilyIndices createResult = Inr createInfo"
  shows "\<exists>surfaceFormat g t.
           chooseSwapSurfaceFormat (formats swapChainSupport) = Inr surfaceFormat
           \<and> graphicsFamily queueFamilyIndices = Some g
           \<and> transferFamily queueFamilyIndices = Some t
           \<and> createResult = VK_SUCCESS
           \<and> ci_minImageCount createInfo =
               (if maxImageCount (capabilities swapChainSupport) > 0
                   \<and> minImageCount (capabilities swapChainSupport) + 1 > maxImageCount (capabilities swapChainSupport)
                then maxImageCount (capabilities swapChainSupport)
                else minImageCount (capabilities swapChainSupport) + 1)
           \<and> ci_imageSharingMode createInfo = (if g \<noteq> t then VK_SHARING_MODE_CONCURRENT else VK_SHARING_MODE_EXCLUSIVE)
           \<and> ci_queueFamilyIndexCount createInfo = (if g \<noteq> t then 2 else 0)
           \<and> ci_pQueueFamilyIndices createInfo = (if g \<noteq> t then Some [g, t] else None)"
proof (cases "chooseSwapSurfaceFormat (formats swapChainSupport)")
  case (Inl e)
  with assms show ?thesis by (simp add: createSwapChain_def)
next
  case (Inr surfaceFormat)
  note fmt = this
  show ?thesis
  proof (cases "graphicsFamily queueFamilyIndices")
    case None
    with assms fmt show ?thesis
      by (simp add: createSwapChain_def optional_value_def Let_def)
  next
    case (Some g)
    note g = this
    show ?thesis
    proof (cases "transferFamily queueFamilyIndices")
      case None
      with assms fmt g show ?thesis
        by (simp add: createSwapChain_def optional_value_def Let_def)
    next
      case (Some t)
      show ?thesis
      proof (cases "createResult = VK_SUCCESS")
        case False
        with assms fmt g Some show ?thesis
          by (simp add: createSwapChain_def optional_value_def Let_def)
      next
        case True
        from assms have "createInfo = projr (createSwapChain swapChainSupport framebufferSize queueFamilyIndices createResult)"
          by simp
        then show ?thesis
          unfolding createSwapChain_def optional_value_def Let_def fmt g Some
          using True by simp
      qed
    qed
  qed
qed

text \<open>
  C8 (as amended). The requested image count is the surface's minimum image count plus
  one (in 32-bit unsigned arithmetic), clamped down to the maximum image count when
  that maximum is non-zero; a maximum of zero means no upper limit and leaves the count
  at minimum plus one.
\<close>

theorem createSwapChain_imageCount:
  assumes "createSwapChain swapChainSupport framebufferSize queueFamilyIndices createResult = Inr createInfo"
  shows "unat (ci_minImageCount createInfo) =
           (let n = (unat (minImageCount (capabilities swapChainSupport)) + 1) mod 2 ^ 32;
                m = unat (maxImageCount (capabilities swapChainSupport))
            in if m = 0 \<or> n \<le> m then n else m)"
proof -
  let ?lo = "minImageCount (capabilities swapChainSupport)"
  let ?hi = "maxImageCount (capabilities swapChainSupport)"
  from createSwapChain_Inr [OF assms]
  have c: "ci_minImageCount createInfo = (if ?hi > 0 \<and> ?lo + 1 > ?hi then ?hi else ?lo + 1)"
    by auto
  have n: "unat (?lo + 1) = (unat ?lo + 1) mod 2 ^ 32"
    by (simp add: unat_word_ariths)
  have z: "?hi > 0 \<longleftrightarrow> unat ?hi \<noteq> 0"
    by (simp add: word_greater_zero_iff unat_eq_0)
  have l: "?lo + 1 > ?hi \<longleftrightarrow> \<not> unat (?lo + 1) \<le> unat ?hi"
    by (simp add: word_less_nat_alt not_le)
  show ?thesis
    unfolding c Let_def z l n [symmetric] by auto
qed

text \<open>
  C9. A swapchain creation that reaches the driver sets exclusive sharing with zero
  queue family indices and a null index pointer if and only if the selected graphics
  and transfer families are equal; otherwise it sets concurrent sharing with exactly
  the two indices graphics, transfer.
\<close>

theorem createSwapChain_sharing_mode:
  assumes "createSwapChain swapChainSupport framebufferSize queueFamilyIndices createResult = Inr createInfo"
  shows "((ci_imageSharingMode createInfo = VK_SHARING_MODE_EXCLUSIVE
            \<and> ci_queueFamilyIndexCount createInfo = 0
            \<and> ci_pQueueFamilyIndices createInfo = None)
          \<longleftrightarrow> graphicsFamily queueFamilyIndices = transferFamily queueFamilyIndices)
       \<and> (graphicsFamily queueFamilyIndices \<noteq> transferFamily queueFamilyIndices \<longrightarrow>
            ci_imageSharingMode createInfo = VK_SHARING_MODE_CONCURRENT
            \<and> ci_queueFamilyIndexCount createInfo = 2
            \<and> (\<exists>g t. graphicsFamily queueFamilyIndices = Some g
                    \<and> transferFamily queueFamilyIndices = Some t
                    \<and> ci_pQueueFamilyIndices createInfo = Some [g, t]))"
proof -
  from createSwapChain_Inr [OF assms] obtain g t where
    g: "graphicsFamily queueFamilyIndices = Some g" and
    t: "transferFamily queueFamilyIndices = Some t" and
    mode: "ci_imageSharingMode createInfo =
            (if g \<noteq> t then VK_SHARING_MODE_CONCURRENT else VK_SHARING_MODE_EXCLUSIVE)" and
    count: "ci_queueFamilyIndexCount createInfo = (if g \<noteq> t then 2 else 0)" and
    ptr: "ci_pQueueFamilyIndices createInfo = (if g \<noteq> t then Some [g, t] else None)"
    by blast
  show ?thesis
  proof (cases "g = t")
    case True
    with g t mode count ptr show ?thesis by simp
  next
    case False
    with g t mode count ptr show ?thesis
      by (simp add: VK_SHARING_MODE_CONCURRENT_def VK_SHARING_MODE_EXCLUSIVE_def)
  qed
qed


text \<open>
  Two concrete runs: a surface with minimum 2 and no maximum, with distinct graphics and
  transfer families; and a surface with minimum 3 and maximum 3, with one family for both.
\<close>

lemma createSwapChain_example_unbounded:
  "createSwapChain
      \<lparr> capabilities = \<lparr> minImageCount = 2, maxImageCount = 0,
          currentExtent = \<lparr> width = 800, height = 600 \<rparr>,
          minImageExtent = \<lparr> width = 1, height = 1 \<rparr>,
          maxImageExtent = \<lparr> width = 4096, height = 4096 \<rparr>,
          currentTransform = 1 \<rparr>,
        formats = [\<lparr> format = 50, colorSpace = 0 \<rparr>], presentModes = [2] \<rparr>
      (800, 600) \<lparr> graphicsFamily = Some 0, presentFamily = Some 0, transferFamily = Some 1 \<rparr> 0
     = Inr \<lparr> ci_minImageCount = 3, ci_imageFormat = 50, ci_imageColorSpace = 0,
          ci_imageExtent = \<lparr> width = 800, height = 600 \<rparr>, ci_imageArrayLayers = 1,
          ci_imageUsage = 16, ci_imageSharingMode = 1, ci_queueFamilyIndexCount = 2,
          ci_pQueueFamilyIndices = Some [0, 1], ci_preTransform = 1, ci_compositeAlpha = 1,
          ci_presentMode = 2, ci_clipped = True \<rparr>"
  by (simp add: createSwapChain_def chooseSwapSurfaceFormat_def chooseSwapExtent_def optional_value_def
        Let_def VK_FORMAT_B8G8R8A8_SRGB_def VK_COLOR_SPACE_SRGB_NONLINEAR_KHR_def
        VK_PRESENT_MODE_MAILBOX_KHR_def VK_PRESENT_MODE_FIFO_KHR_def VK_SUCCESS_def
        VK_SHARING_MODE_CONCURRENT_def VK_SHARING_MODE_EXCLUSIVE_def
        VK_IMAGE_USAGE_COLOR_ATTACHMENT_BIT_def VK_COMPOSITE_ALPHA_OPAQUE_BIT_KHR_def)

lemma createSwapChain_example_clamped:
  "createSwapChain
      \<lparr> capabilities = \<lparr> minImageCount = 3, maxImageCount = 3,
          currentExtent = \<lparr> width = 800, height = 600 \<rparr>,
          minImageExtent = \<lparr> width = 1, height = 1 \<rparr>,
          maxImageExtent = \<lparr> width = 4096, height = 4096 \<rparr>,
          currentTransform = 1 \<rparr>,
        formats = [\<lparr> format = 50, colorSpace = 0 \<rparr>], presentModes = [2] \<rparr>
      (800, 600) \<lparr> graphicsFamily = Some 0, presentFamily = Some 0, transferFamily = Some 0 \<rparr> 0
     = Inr \<lparr> ci_minImageCount = 3, ci_imageFormat = 50, ci_imageColorSpace = 0,
          ci_imageExtent = \<lparr> width = 800, height = 600 \<rparr>, ci_imageArrayLayers = 1,
          ci_imageUsage = 16, ci_imageSharingMode = 0, ci_queueFamilyIndexCount = 0,
          ci_pQueueFamilyIndices = None, ci_preTransform = 1, ci_compositeAlpha = 1,
          ci_presentMode = 2, ci_clipped = True \<rparr>"
  by (simp add: createSwapChain_def chooseSwapSurfaceFormat_def chooseSwapExtent_def optional_value_def
        Let_def VK_FORMAT_B8G8R8A8_SRGB_def VK_COLOR_SPACE_SRGB_NONLINEAR_KHR_def
        VK_PRESENT_MODE_MAILBOX_KHR_def VK_PRESENT_MODE_FIFO_KHR_def VK_SUCCESS_def
        VK_SHARING_MODE_CONCURRENT_def VK_SHARING_MODE_EXCLUSIVE_def
        VK_IMAGE_USAGE_COLOR_ATTACHMENT_BIT_def VK_COMPOSITE_ALPHA_OPAQUE_BIT_KHR_def)

text \<open>
  C8 as stated fails where the surface reports no maximum (\<open>maxImageCount = 0\<close>):
  with minimum 2 the request is for 3 images, while minimum plus one clamped down to
  the maximum would be 0.
\<close>

theorem createSwapChain_imageCount_counterexample:
  "createSwapChain
      \<lparr> capabilities = \<lparr> minImageCount = 2, maxImageCount = 0,
          currentExtent = \<lparr> width = 800, height = 600 \<rparr>,
          minImageExtent = \<lparr> width = 1, height = 1 \<rparr>,
          maxImageExtent = \<lparr> width = 4096, height = 4096 \<rparr>,
          currentTransform = 1 \<rparr>,
        formats = [\<lparr> format = 50, colorSpace = 0 \<rparr>], presentModes = [2] \<rparr>
      (800, 600) \<lparr> graphicsFamily = Some 0, presentFamily = Some 0, transferFamily = Some 1 \<rparr> 0
     = Inr \<lparr> ci_minImageCount = 3, ci_imageFormat = 50, ci_imageColorSpace = 0,
          ci_imageExtent = \<lparr> width = 800, height = 600 \<rparr>, ci_imageArrayLayers = 1,
          ci_imageUsage = 16, ci_imageSharingMode = 1, ci_queueFamilyIndexCount = 2,
          ci_pQueueFamilyIndices = Some [0, 1], ci_preTransform = 1, ci_compositeAlpha = 1,
          ci_presentMode = 2, ci_clipped = True \<rparr>
   \<and> (3 :: u32) \<noteq> min (2 + 1) 0"
  by (simp add: createSwapChain_def chooseSwapSurfaceFormat_def chooseSwapExtent_def optional_value_def
        Let_def VK_FORMAT_B8G8R8A8_SRGB_def VK_COLOR_SPACE_SRGB_NONLINEAR_KHR_def
        VK_PRESENT_MODE_MAILBOX_KHR_def VK_PRESENT_MODE_FIFO_KHR_def VK_SUCCESS_def
        VK_SHARING_MODE_CONCURRENT_def VK_SHARING_MODE_EXCLUSIVE_def
        VK_IMAGE_USAGE_COLOR_ATTACHMENT_BIT_def VK_COMPOSITE_ALPHA_OPAQUE_BIT_KHR_def)

text \<open>The amended C8 on both runs.\<close>

theorem createSwapChain_imageCount_witness:
  "createSwapChain
      \<lparr> capabilities = \<lparr> minImageCount = 2, maxImageCount = 0,
          currentExtent = \<lparr> width = 800, height = 600 \<rparr>,
          minImageExtent = \<lparr> width = 1, height = 1 \<rparr>,
          maxImageExtent = \<lparr> width = 4096, height = 4096 \<rparr>,
          currentTransform = 1 \<rparr>,
        formats = [\<lparr> format = 50, colorSpace = 0 \<rparr>], presentModes = [2] \<rparr>
      (800, 600) \<lparr> graphicsFamily = Some 0, presentFamily = Some 0, transferFamily = Some 1 \<rparr> 0
     = Inr \<lparr> ci_minImageCount = 3, ci_imageFormat = 50, ci_imageColorSpace = 0,
          ci_imageExtent = \<lparr> width = 800, height = 600 \<rparr>, ci_imageArrayLayers = 1,
          ci_imageUsage = 16, ci_imageSharingMode = 1, ci_queueFamilyIndexCount = 2,
          ci_pQueueFamilyIndices = Some [0, 1], ci_preTransform = 1, ci_compositeAlpha = 1,
          ci_presentMode = 2, ci_clipped = True \<rparr>
   \<and> createSwapChain
      \<lparr> capabilities = \<lparr> minImageCount = 3, maxImageCount = 3,
          currentExtent = \<lparr> width = 800, height = 600 \<rparr>,
          minImageExtent = \<lparr> width = 1, height = 1 \<rparr>,
          maxImageExtent = \<lparr> width = 4096, height = 4096 \<rparr>,
          currentTransform = 1 \<rparr>,
        formats = [\<lparr> format = 50, colorSpace = 0 \<rparr>], presentModes = [2] \<rparr>
      (800, 600) \<lparr> graphicsFamily = Some 0, presentFamily = Some 0, transferFamily = Some 0 \<rparr> 0
     = Inr \<lparr> ci_minImageCount = 3, ci_imageFormat = 50, ci_imageColorSpace = 0,
          ci_imageExtent = \<lparr> width = 800, height = 600 \<rparr>, ci_imageArrayLayers = 1,
          ci_imageUsage = 16, ci_imageSharingMode = 0, ci_queueFamilyIndexCount = 0,
          ci_pQueueFamilyIndices = None, ci_preTransform = 1, ci_compositeAlpha = 1,
          ci_presentMode = 2, ci_clipped = True \<rparr>
   \<and> unat (3 :: u32) = 3"
  using createSwapChain_imageCount [OF createSwapChain_example_unbounded]
        createSwapChain_imageCount [OF createSwapChain_example_clamped]
        createSwapChain_example_unbounded createSwapChain_example_clamped
  by simp

text \<open>C9 on both runs.\<close>

theorem createSwapChain_sharing_mode_witness:
  "createSwapChain
      \<lparr> capabilities = \<lparr> minImageCount = 2, maxImageCount = 0,
          currentExtent = \<lparr> width = 800, height = 600 \<rparr>,
          minImageExtent = \<lparr> width = 1, height = 1 \<rparr>,
          maxImageExtent = \<lparr> width = 4096, height = 4096 \<rparr>,
          currentTransform = 1 \<rparr>,
        formats = [\<lparr> format = 50, colorSpace = 0 \<rparr>], presentModes = [2] \<rparr>
      (800, 600) \<lparr> graphicsFamily = Some 0, presentFamily = Some 0, transferFamily = Some 1 \<rparr> 0
     = Inr \<lparr> ci_minImageCount = 3, ci_imageFormat = 50, ci_imageColorSpace = 0,
          ci_imageExtent = \<lparr> width = 800, height = 600 \<rparr>, ci_imageArrayLayers = 1,
          ci_imageUsage = 16, ci_imageSharingMode = 1, ci_queueFamilyIndexCount = 2,
          ci_pQueueFamilyIndices = Some [0, 1], ci_preTransform = 1, ci_compositeAlpha = 1,
          ci_presentMode = 2, ci_clipped = True \<rparr>
   \<and> createSwapChain
      \<lparr> capabilities = \<lparr> minImageCount = 3, maxImageCount = 3,
          currentExtent = \<lparr> width = 800, height = 600 \<rparr>,
          minImageExtent = \<lparr> width = 1, height = 1 \<rparr>,
          maxImageExtent = \<lparr> width = 4096, height = 4096 \<rparr>,
          currentTransform = 1 \<rparr>,
        formats = [\<lparr> format = 50, colorSpace = 0 \<rparr>], presentModes = [2] \<rparr>
      (800, 600) \<lparr> graphicsFamily = Some 0, presentFamily = Some 0, transferFamily = Some 0 \<rparr> 0
     = Inr \<lparr> ci_minImageCount = 3, ci_imageFormat = 50, ci_imageColorSpace = 0,
          ci_imageExtent = \<lparr> width = 800, height = 600 \<rparr>, ci_imageArrayLayers = 1,
          ci_imageUsage = 16, ci_imageSharingMode = 0, ci_queueFamilyIndexCount = 0,
          ci_pQueueFamilyIndices = None, ci_preTransform = 1, ci_compositeAlpha = 1,
          ci_presentMode = 2, ci_clipped = True \<rparr>
   \<and> VK_SHARING_MODE_CONCURRENT = 1 \<and> VK_SHARING_MODE_EXCLUSIVE = 0"
  using createSwapChain_sharing_mode [OF createSwapChain_example_unbounded]
        createSwapChain_sharing_mode [OF createSwapChain_example_clamped]
        createSwapChain_example_unbounded createSwapChain_example_clamped
  by simp

section \<open>The draw operation\<close>

lemma emit_simps:
  "currentFrame (emit c ctx) = currentFrame ctx"
  "framebufferResized (emit c ctx) = framebufferResized ctx"
  "inFlightFences (emit c ctx) = inFlightFences ctx"
  "imageAvailableSemaphores (emit c ctx) = imageAvailableSemaphores ctx"
  "renderFinishedSemaphores (emit c ctx) = renderFinishedSemaphores ctx"
  "calls (emit c ctx) = calls ctx @ [c]"
  by (simp_all add: emit_def)

text \<open>
  What the acquire handling does with each result. A result other than
  \<open>VK_SUCCESS\<close> is logged and the frame goes on; the branch that would recreate the
  swapchain is only entered with \<open>VK_SUCCESS\<close>, which is not out-of-date.
\<close>

lemma Draw_acquire_failure_continues:
  assumes "acquireResult r \<noteq> VK_SUCCESS"
  shows "Draw_acquire MAX_FRAMES_IN_FLIGHT r ctx =
           Draw_submit MAX_FRAMES_IN_FLIGHT r
             (emit (LogError ''failed to acquireNextImage!'')
                (emit (Call_vkAcquireNextImageKHR (currentFrame ctx)) ctx))"
  using assms by (simp add: Draw_acquire_def Let_def)

lemma Draw_acquire_success_continues:
  assumes "acquireResult r = VK_SUCCESS"
  shows "Draw_acquire MAX_FRAMES_IN_FLIGHT r ctx =
           Draw_submit MAX_FRAMES_IN_FLIGHT r (emit (Call_vkAcquireNextImageKHR (currentFrame ctx)) ctx)"
  using assms by (simp add: Draw_acquire_def Let_def VK_SUCCESS_def VK_ERROR_OUT_OF_DATE_KHR_def)

text \<open>
  C1 (the code at an out-of-date acquire). With two frame slots, signaled fences and
  the acquire answering \<open>VK_ERROR_OUT_OF_DATE_KHR\<close>, \<open>Draw\<close> logs
  "failed to acquireNextImage!" and carries on: it resets the slot's fence, records and
  submits the command buffer, presents, and advances the slot. \<open>recreateSwapChain\<close>
  is not called and the frame is not aborted. (The image index is whatever the failed
  acquire left in the variable; 0 here.)
\<close>

theorem Draw_acquire_out_of_date_still_submits:
  "Draw 2
     \<lparr> acquireResult = VK_ERROR_OUT_OF_DATE_KHR, acquiredImageIndex = 0,
       beginResult = VK_SUCCESS, endResult = VK_SUCCESS, submitResult = VK_SUCCESS,
       presentResult = VK_SUCCESS, recreateOutcome = Returned \<rparr>
     \<lparr> currentFrame = 0, framebufferResized = False,
       imageAvailableSemaphores = [True, True], renderFinishedSemaphores = [True, True],
       inFlightFences = [Signaled, Signaled], calls = [] \<rparr>
   = (Returned,
      \<lparr> currentFrame = 1, framebufferResized = False,
        imageAvailableSemaphores = [True, True], renderFinishedSemaphores = [True, True],
        inFlightFences = [Pending, Signaled],
        calls = [Call_vkWaitForFences 0, Call_vkAcquireNextImageKHR 0,
                 LogError ''failed to acquireNextImage!'',
                 Call_vkResetFences 0, Call_vkResetCommandBuffer 0,
                 Call_vkBeginCommandBuffer 0, RenderPassCommands 0 0, Call_vkEndCommandBuffer 0,
                 Call_updateUniformBuffer 0, Call_vkQueueSubmit 0, Call_vkQueuePresentKHR 0] \<rparr>)"
  by (simp add: Draw_def Draw_acquire_def Draw_submit_def Draw_present_def Draw_advance_def
      recordCommandBuffer_def recreateSwapChain_def vkWaitForFences_def emit_def Let_def
      VK_SUCCESS_def VK_ERROR_OUT_OF_DATE_KHR_def VK_SUBOPTIMAL_KHR_def)

text \<open>Every acquire result leads on to the fence reset, after a prefix of the trace
  that holds neither a presentation nor a recreation.\<close>

lemma Draw_acquire_to_submit:
  "\<exists>mid cs. Draw_acquire F r ctx = Draw_submit F r mid
      \<and> currentFrame mid = currentFrame ctx
      \<and> framebufferResized mid = framebufferResized ctx
      \<and> inFlightFences mid = inFlightFences ctx
      \<and> calls mid = calls ctx @ cs
      \<and> Call_recreateSwapChain \<notin> set cs
      \<and> (\<forall>c. Call_vkQueueSubmit c \<notin> set cs)"
proof (cases "acquireResult r = VK_SUCCESS")
  case True
  show ?thesis
    unfolding Draw_acquire_success_continues [OF True]
    by (intro exI [of _ "emit (Call_vkAcquireNextImageKHR (currentFrame ctx)) ctx"]
              exI [of _ "[Call_vkAcquireNextImageKHR (currentFrame ctx)]"])
       (simp add: emit_simps)
next
  case False
  show ?thesis
    unfolding Draw_acquire_failure_continues [OF False]
    by (intro exI [of _ "emit (LogError ''failed to acquireNextImage!'')
                (emit (Call_vkAcquireNextImageKHR (currentFrame ctx)) ctx)"]
              exI [of _ "[Call_vkAcquireNextImageKHR (currentFrame ctx), LogError ''failed to acquireNextImage!'']"])
       (simp add: emit_simps)
qed

text \<open>The three ways the presentation result is handled.\<close>

lemma Draw_present_recreate:
  assumes "presentResult r = VK_ERROR_OUT_OF_DATE_KHR \<or> presentResult r = VK_SUBOPTIMAL_KHR
           \<or> framebufferResized ctx"
    and "0 < F"
  shows "Draw_present F r ctx =
           (recreateOutcome r,
            ctx \<lparr> calls := calls ctx @ [Call_vkQueuePresentKHR (acquiredImageIndex r), Call_recreateSwapChain],
                  framebufferResized := False,
                  currentFrame := (if recreateOutcome r = Returned then (currentFrame ctx + 1) mod F
                                   else currentFrame ctx) \<rparr>)"
proof -
  have c: "(presentResult r = VK_ERROR_OUT_OF_DATE_KHR \<or> presentResult r = VK_SUBOPTIMAL_KHR
           \<or> framebufferResized (emit (Call_vkQueuePresentKHR (acquiredImageIndex r)) ctx)) = True"
    using assms(1) by (simp add: emit_simps)
  show ?thesis
    unfolding Draw_present_def Let_def c if_True recreateSwapChain_def
    using assms(2)
    by (cases "recreateOutcome r") (simp_all add: Draw_advance_def emit_def)
qed

lemma Draw_present_fatal:
  assumes "\<not> (presentResult r = VK_ERROR_OUT_OF_DATE_KHR \<or> presentResult r = VK_SUBOPTIMAL_KHR
           \<or> framebufferResized ctx)"
    and "presentResult r \<noteq> VK_SUCCESS"
  shows "Draw_present F r ctx =
           (Thrown (RuntimeError ''failed to present swap chain image!''),
            ctx \<lparr> calls := calls ctx @ [Call_vkQueuePresentKHR (acquiredImageIndex r),
                                        LogFatal ''failed to present swap chain image!''] \<rparr>)"
proof -
  have c: "(presentResult r = VK_ERROR_OUT_OF_DATE_KHR \<or> presentResult r = VK_SUBOPTIMAL_KHR
           \<or> framebufferResized (emit (Call_vkQueuePresentKHR (acquiredImageIndex r)) ctx)) = False"
    using assms(1) by (simp add: emit_simps)
  show ?thesis
    unfolding Draw_present_def Let_def c if_False
    using assms(2) by (simp add: emit_def)
qed

lemma Draw_present_success:
  assumes "\<not> (presentResult r = VK_ERROR_OUT_OF_DATE_KHR \<or> presentResult r = VK_SUBOPTIMAL_KHR
           \<or> framebufferResized ctx)"
    and "presentResult r = VK_SUCCESS" and "0 < F"
  shows "Draw_present F r ctx =
           (Returned,
            ctx \<lparr> calls := calls ctx @ [Call_vkQueuePresentKHR (acquiredImageIndex r)],
                  currentFrame := (currentFrame ctx + 1) mod F \<rparr>)"
proof -
  have c: "(presentResult r = VK_ERROR_OUT_OF_DATE_KHR \<or> presentResult r = VK_SUBOPTIMAL_KHR
           \<or> framebufferResized (emit (Call_vkQueuePresentKHR (acquiredImageIndex r)) ctx)) = False"
    using assms(1) by (simp add: emit_simps)
  show ?thesis
    unfolding Draw_present_def Let_def c if_False
    using assms(2,3) by (simp add: emit_def Draw_advance_def)
qed

text \<open>With recording and submission successful, the frame reaches the presentation.\<close>

lemma Draw_submit_to_present:
  assumes "beginResult r = VK_SUCCESS" "endResult r = VK_SUCCESS" "submitResult r = VK_SUCCESS"
  shows "Draw_submit F r ctx =
           Draw_present F r
             (ctx \<lparr> calls := calls ctx @
                      [Call_vkResetFences (currentFrame ctx),
                       Call_vkResetCommandBuffer (currentFrame ctx),
                       Call_vkBeginCommandBuffer (currentFrame ctx),
                       RenderPassCommands (currentFrame ctx) (acquiredImageIndex r),
                       Call_vkEndCommandBuffer (currentFrame ctx),
                       Call_updateUniformBuffer (currentFrame ctx),
                       Call_vkQueueSubmit (currentFrame ctx)],
                    inFlightFences := (inFlightFences ctx)[currentFrame ctx := Pending] \<rparr>)"
  using assms
  by (simp add: Draw_submit_def recordCommandBuffer_def Let_def emit_simps) (simp add: emit_def)

lemma Draw_wait_to_acquire:
  assumes "currentFrame ctx < length (inFlightFences ctx)"
    and "inFlightFences ctx ! currentFrame ctx = Signaled \<or> inFlightFences ctx ! currentFrame ctx = Pending"
  shows "Draw F r ctx =
           Draw_acquire F r
             (ctx \<lparr> calls := calls ctx @ [Call_vkWaitForFences (currentFrame ctx)],
                    inFlightFences := (inFlightFences ctx)[currentFrame ctx := Signaled] \<rparr>)"
proof -
  from assms(2) show ?thesis
  proof
    assume s: "inFlightFences ctx ! currentFrame ctx = Signaled"
    then have "(inFlightFences ctx)[currentFrame ctx := Signaled] = inFlightFences ctx"
      by (metis list_update_id)
    with s assms(1) show ?thesis
      by (simp add: Draw_def Let_def emit_def vkWaitForFences_def)
  next
    assume "inFlightFences ctx ! currentFrame ctx = Pending"
    with assms(1) show ?thesis
      by (simp add: Draw_def Let_def emit_def vkWaitForFences_def)
  qed
qed

text \<open>
  C7. Take a call of \<open>Draw\<close> that reaches the presentation (the slot's fence wait
  returns, recording and submission succeed). If the presentation result is out-of-date
  or suboptimal, or the framebuffer-resized flag is set, then the flag is cleared and
  \<open>recreateSwapChain\<close> is called right after the presentation (and nowhere before),
  and \<open>Draw\<close> ends as the recreation ends. Otherwise every result other than
  \<open>VK_SUCCESS\<close> makes \<open>Draw\<close> throw "failed to present swap chain image!"
  without any recreation, and \<open>VK_SUCCESS\<close> returns without any recreation.
\<close>

theorem Draw_present_dispatch:
  assumes "currentFrame ctx < length (inFlightFences ctx)"
    and "inFlightFences ctx ! currentFrame ctx = Signaled \<or> inFlightFences ctx ! currentFrame ctx = Pending"
    and "beginResult r = VK_SUCCESS" and "endResult r = VK_SUCCESS"
    and "submitResult r = VK_SUCCESS"
    and "0 < MAX_FRAMES_IN_FLIGHT"
  shows "(presentResult r = VK_ERROR_OUT_OF_DATE_KHR \<or> presentResult r = VK_SUBOPTIMAL_KHR
            \<or> framebufferResized ctx \<longrightarrow>
          fst (Draw MAX_FRAMES_IN_FLIGHT r ctx) = recreateOutcome r
          \<and> \<not> framebufferResized (snd (Draw MAX_FRAMES_IN_FLIGHT r ctx))
          \<and> (\<exists>cs. newCalls ctx (snd (Draw MAX_FRAMES_IN_FLIGHT r ctx)) =
                     cs @ [Call_vkQueuePresentKHR (acquiredImageIndex r), Call_recreateSwapChain]
                   \<and> Call_recreateSwapChain \<notin> set cs))
       \<and> (\<not> (presentResult r = VK_ERROR_OUT_OF_DATE_KHR \<or> presentResult r = VK_SUBOPTIMAL_KHR
               \<or> framebufferResized ctx)
            \<and> presentResult r \<noteq> VK_SUCCESS \<longrightarrow>
          fst (Draw MAX_FRAMES_IN_FLIGHT r ctx) = Thrown (RuntimeError ''failed to present swap chain image!'')
          \<and> Call_recreateSwapChain \<notin> set (newCalls ctx (snd (Draw MAX_FRAMES_IN_FLIGHT r ctx))))
       \<and> (\<not> (presentResult r = VK_ERROR_OUT_OF_DATE_KHR \<or> presentResult r = VK_SUBOPTIMAL_KHR
               \<or> framebufferResized ctx)
            \<and> presentResult r = VK_SUCCESS \<longrightarrow>
          fst (Draw MAX_FRAMES_IN_FLIGHT r ctx) = Returned
          \<and> Call_recreateSwapChain \<notin> set (newCalls ctx (snd (Draw MAX_FRAMES_IN_FLIGHT r ctx))))"
proof -
  let ?F = MAX_FRAMES_IN_FLIGHT
  let ?waited = "ctx \<lparr> calls := calls ctx @ [Call_vkWaitForFences (currentFrame ctx)],
                    inFlightFences := (inFlightFences ctx)[currentFrame ctx := Signaled] \<rparr>"
  from Draw_acquire_to_submit [of ?F r ?waited] obtain acquired cs where
    acq: "Draw_acquire ?F r ?waited = Draw_submit ?F r acquired"
    and acquired: "currentFrame acquired = currentFrame ctx"
      "framebufferResized acquired = framebufferResized ctx"
      "calls acquired = (calls ctx @ [Call_vkWaitForFences (currentFrame ctx)]) @ cs"
      "Call_recreateSwapChain \<notin> set cs"
    by auto
  let ?submitted = "acquired \<lparr> calls := calls acquired @
                      [Call_vkResetFences (currentFrame acquired),
                       Call_vkResetCommandBuffer (currentFrame acquired),
                       Call_vkBeginCommandBuffer (currentFrame acquired),
                       RenderPassCommands (currentFrame acquired) (acquiredImageIndex r),
                       Call_vkEndCommandBuffer (currentFrame acquired),
                       Call_updateUniformBuffer (currentFrame acquired),
                       Call_vkQueueSubmit (currentFrame acquired)],
                    inFlightFences := (inFlightFences acquired)[currentFrame acquired := Pending] \<rparr>"
  have run: "Draw ?F r ctx = Draw_present ?F r ?submitted"
    unfolding Draw_wait_to_acquire [OF assms(1,2)] acq
    by (rule Draw_submit_to_present [OF assms(3,4,5)])
  obtain pre where pre: "calls ?submitted = calls ctx @ pre" "Call_recreateSwapChain \<notin> set pre"
    using acquired by simp
  have flag: "framebufferResized ?submitted = framebufferResized ctx"
    using acquired by simp
  show ?thesis
  proof (intro conjI impI)
    assume c: "presentResult r = VK_ERROR_OUT_OF_DATE_KHR \<or> presentResult r = VK_SUBOPTIMAL_KHR
            \<or> framebufferResized ctx"
    then have c': "presentResult r = VK_ERROR_OUT_OF_DATE_KHR \<or> presentResult r = VK_SUBOPTIMAL_KHR
            \<or> framebufferResized ?submitted"
      using flag by simp
    note p = Draw_present_recreate [OF c' assms(6)]
    show "fst (Draw ?F r ctx) = recreateOutcome r"
      unfolding run p by simp
    show "\<not> framebufferResized (snd (Draw ?F r ctx))"
      unfolding run p by simp
    have "newCalls ctx (snd (Draw ?F r ctx)) =
            pre @ [Call_vkQueuePresentKHR (acquiredImageIndex r), Call_recreateSwapChain]"
      unfolding run p newCalls_def using pre(1) by simp
    with pre(2)
    show "\<exists>cs. newCalls ctx (snd (Draw ?F r ctx)) =
                 cs @ [Call_vkQueuePresentKHR (acquiredImageIndex r), Call_recreateSwapChain]
               \<and> Call_recreateSwapChain \<notin> set cs"
      by blast
  next
    assume c: "\<not> (presentResult r = VK_ERROR_OUT_OF_DATE_KHR \<or> presentResult r = VK_SUBOPTIMAL_KHR
               \<or> framebufferResized ctx) \<and> presentResult r \<noteq> VK_SUCCESS"
    then have c': "\<not> (presentResult r = VK_ERROR_OUT_OF_DATE_KHR \<or> presentResult r = VK_SUBOPTIMAL_KHR
            \<or> framebufferResized ?submitted)" and ne: "presentResult r \<noteq> VK_SUCCESS"
      using flag by simp_all
    note p = Draw_present_fatal [OF c' ne]
    show "fst (Draw ?F r ctx) = Thrown (RuntimeError ''failed to present swap chain image!'')"
      unfolding run p by simp
    show "Call_recreateSwapChain \<notin> set (newCalls ctx (snd (Draw ?F r ctx)))"
      unfolding run p newCalls_def using pre by simp
  next
    assume c: "\<not> (presentResult r = VK_ERROR_OUT_OF_DATE_KHR \<or> presentResult r = VK_SUBOPTIMAL_KHR
               \<or> framebufferResized ctx) \<and> presentResult r = VK_SUCCESS"
    then have c': "\<not> (presentResult r = VK_ERROR_OUT_OF_DATE_KHR \<or> presentResult r = VK_SUBOPTIMAL_KHR
            \<or> framebufferResized ?submitted)" and ok: "presentResult r = VK_SUCCESS"
      using flag by simp_all
    note p = Draw_present_success [OF c' ok assms(6)]
    show "fst (Draw ?F r ctx) = Returned"
      unfolding run p by simp
    show "Call_recreateSwapChain \<notin> set (newCalls ctx (snd (Draw ?F r ctx)))"
      unfolding run p newCalls_def using pre by simp
  qed
qed

text \<open>
  C7 at four frames: suboptimal presentation; successful presentation with the resize
  flag set; presentation failing with \<open>VK_ERROR_DEVICE_LOST\<close> (-4); plain success.
\<close>

theorem Draw_present_dispatch_witness:
  "fst (Draw 2
     \<lparr> acquireResult = VK_SUCCESS, acquiredImageIndex = 0,
       beginResult = VK_SUCCESS, endResult = VK_SUCCESS, submitResult = VK_SUCCESS,
       presentResult = VK_SUBOPTIMAL_KHR, recreateOutcome = Returned \<rparr>
     \<lparr> currentFrame = 0, framebufferResized = False,
       imageAvailableSemaphores = [True, True], renderFinishedSemaphores = [True, True],
       inFlightFences = [Signaled, Signaled], calls = [] \<rparr>) = Returned
   \<and> \<not> framebufferResized (snd (Draw 2
     \<lparr> acquireResult = VK_SUCCESS, acquiredImageIndex = 0,
       beginResult = VK_SUCCESS, endResult = VK_SUCCESS, submitResult = VK_SUCCESS,
       presentResult = VK_SUBOPTIMAL_KHR, recreateOutcome = Returned \<rparr>
     \<lparr> currentFrame = 0, framebufferResized = False,
       imageAvailableSemaphores = [True, True], renderFinishedSemaphores = [True, True],
       inFlightFences = [Signaled, Signaled], calls = [] \<rparr>))
   \<and> fst (Draw 2
     \<lparr> acquireResult = VK_SUCCESS, acquiredImageIndex = 0,
       beginResult = VK_SUCCESS, endResult = VK_SUCCESS, submitResult = VK_SUCCESS,
       presentResult = VK_SUCCESS, recreateOutcome = Returned \<rparr>
     \<lparr> currentFrame = 0, framebufferResized = True,
       imageAvailableSemaphores = [True, True], renderFinishedSemaphores = [True, True],
       inFlightFences = [Signaled, Signaled], calls = [] \<rparr>) = Returned
   \<and> \<not> framebufferResized (snd (Draw 2
     \<lparr> acquireResult = VK_SUCCESS, acquiredImageIndex = 0,
       beginResult = VK_SUCCESS, endResult = VK_SUCCESS, submitResult = VK_SUCCESS,
       presentResult = VK_SUCCESS, recreateOutcome = Returned \<rparr>
     \<lparr> currentFrame = 0, framebufferResized = True,
       imageAvailableSemaphores = [True, True], renderFinishedSemaphores = [True, True],
       inFlightFences = [Signaled, Signaled], calls = [] \<rparr>))
   \<and> fst (Draw 2
     \<lparr> acquireResult = VK_SUCCESS, acquiredImageIndex = 0,
       beginResult = VK_SUCCESS, endResult = VK_SUCCESS, submitResult = VK_SUCCESS,
       presentResult = (- 4), recreateOutcome = Returned \<rparr>
     \<lparr> currentFrame = 0, framebufferResized = False,
       imageAvailableSemaphores = [True, True], renderFinishedSemaphores = [True, True],
       inFlightFences = [Signaled, Signaled], calls = [] \<rparr>) = Thrown (RuntimeError ''failed to present swap chain image!'')
   \<and> Call_recreateSwapChain \<notin> set (newCalls \<lparr> currentFrame = 0, framebufferResized = False,
       imageAvailableSemaphores = [True, True], renderFinishedSemaphores = [True, True],
       inFlightFences = [Signaled, Signaled], calls = [] \<rparr> (snd (Draw 2
     \<lparr> acquireResult = VK_SUCCESS, acquiredImageIndex = 0,
       beginResult = VK_SUCCESS, endResult = VK_SUCCESS, submitResult = VK_SUCCESS,
       presentResult = (- 4), recreateOutcome = Returned \<rparr>
     \<lparr> currentFrame = 0, framebufferResized = False,
       imageAvailableSemaphores = [True, True], renderFinishedSemaphores = [True, True],
       inFlightFences = [Signaled, Signaled], calls = [] \<rparr>)))
   \<and> fst (Draw 2
     \<lparr> acquireResult = VK_SUCCESS, acquiredImageIndex = 0,
       beginResult = VK_SUCCESS, endResult = VK_SUCCESS, submitResult = VK_SUCCESS,
       presentResult = VK_SUCCESS, recreateOutcome = Returned \<rparr>
     \<lparr> currentFrame = 0, framebufferResized = False,
       imageAvailableSemaphores = [True, True], renderFinishedSemaphores = [True, True],
       inFlightFences = [Signaled, Signaled], calls = [] \<rparr>) = Returned
   \<and> Call_recreateSwapChain \<notin> set (newCalls \<lparr> currentFrame = 0, framebufferResized = False,
       imageAvailableSemaphores = [True, True], renderFinishedSemaphores = [True, True],
       inFlightFences = [Signaled, Signaled], calls = [] \<rparr> (snd (Draw 2
     \<lparr> acquireResult = VK_SUCCESS, acquiredImageIndex = 0,
       beginResult = VK_SUCCESS, endResult = VK_SUCCESS, submitResult = VK_SUCCESS,
       presentResult = VK_SUCCESS, recreateOutcome = Returned \<rparr>
     \<lparr> currentFrame = 0, framebufferResized = False,
       imageAvailableSemaphores = [True, True], renderFinishedSemaphores = [True, True],
       inFlightFences = [Signaled, Signaled], calls = [] \<rparr>)))"
  using Draw_present_dispatch [of "\<lparr> currentFrame = 0, framebufferResized = False,
       imageAvailableSemaphores = [True, True], renderFinishedSemaphores = [True, True],
       inFlightFences = [Signaled, Signaled], calls = [] \<rparr>" "\<lparr> acquireResult = VK_SUCCESS, acquiredImageIndex = 0,
       beginResult = VK_SUCCESS, endResult = VK_SUCCESS, submitResult = VK_SUCCESS,
       presentResult = VK_SUBOPTIMAL_KHR, recreateOutcome = Returned \<rparr>" 2]
        Draw_present_dispatch [of "\<lparr> currentFrame = 0, framebufferResized = True,
       imageAvailableSemaphores = [True, True], renderFinishedSemaphores = [True, True],
       inFlightFences = [Signaled, Signaled], calls = [] \<rparr>" "\<lparr> acquireResult = VK_SUCCESS, acquiredImageIndex = 0,
       beginResult = VK_SUCCESS, endResult = VK_SUCCESS, submitResult = VK_SUCCESS,
       presentResult = VK_SUCCESS, recreateOutcome = Returned \<rparr>" 2]
        Draw_present_dispatch [of "\<lparr> currentFrame = 0, framebufferResized = False,
       imageAvailableSemaphores = [True, True], renderFinishedSemaphores = [True, True],
       inFlightFences = [Signaled, Signaled], calls = [] \<rparr>" "\<lparr> acquireResult = VK_SUCCESS, acquiredImageIndex = 0,
       beginResult = VK_SUCCESS, endResult = VK_SUCCESS, submitResult = VK_SUCCESS,
       presentResult = (- 4), recreateOutcome = Returned \<rparr>" 2]
        Draw_present_dispatch [of "\<lparr> currentFrame = 0, framebufferResized = False,
       imageAvailableSemaphores = [True, True], renderFinishedSemaphores = [True, True],
       inFlightFences = [Signaled, Signaled], calls = [] \<rparr>" "\<lparr> acquireResult = VK_SUCCESS, acquiredImageIndex = 0,
       beginResult = VK_SUCCESS, endResult = VK_SUCCESS, submitResult = VK_SUCCESS,
       presentResult = VK_SUCCESS, recreateOutcome = Returned \<rparr>" 2]
  by (simp add: VK_SUCCESS_def VK_ERROR_OUT_OF_DATE_KHR_def VK_SUBOPTIMAL_KHR_def)

section \<open>Fences across frame slots\<close>

text \<open>
  Each part of \<open>Draw\<close> touches only the fence of the current slot, submits only on
  the current slot, and a call that returns has advanced the slot by one modulo the
  number of slots.
\<close>

lemma Draw_present_frame:
  assumes "Draw_present F r ctx = (out, ctx')"
  shows "inFlightFences ctx' = inFlightFences ctx
       \<and> (out = Returned \<longrightarrow> 0 < F \<and> currentFrame ctx' = (currentFrame ctx + 1) mod F)
       \<and> (\<exists>cs. calls ctx' = calls ctx @ cs \<and> (\<forall>c. Call_vkQueueSubmit c \<notin> set cs))"
proof (cases "presentResult r = VK_ERROR_OUT_OF_DATE_KHR \<or> presentResult r = VK_SUBOPTIMAL_KHR
           \<or> framebufferResized ctx")
  case True
  note c = this
  show ?thesis
  proof (cases "0 < F")
    case True
    from assms True show ?thesis
      unfolding Draw_present_recreate [OF c True] by auto
  next
    case False
    with assms c show ?thesis
      by (cases "recreateOutcome r")
         (auto simp: Draw_present_def Draw_advance_def recreateSwapChain_def Let_def emit_simps)
  qed
next
  case False
  note c = this
  show ?thesis
  proof (cases "presentResult r = VK_SUCCESS")
    case True
    note ok = this
    show ?thesis
    proof (cases "0 < F")
      case True
      from assms True show ?thesis
        unfolding Draw_present_success [OF c ok True] by auto
    next
      case False
      with assms c ok show ?thesis
        by (auto simp: Draw_present_def Draw_advance_def Let_def emit_simps)
    qed
  next
    case False
    from assms show ?thesis
      unfolding Draw_present_fatal [OF c False] by auto
  qed
qed

lemma Draw_submit_frame:
  assumes "Draw_submit F r ctx = (out, ctx')"
  shows "length (inFlightFences ctx') = length (inFlightFences ctx)
       \<and> (\<forall>j. j \<noteq> currentFrame ctx \<longrightarrow> inFlightFences ctx' ! j = inFlightFences ctx ! j)
       \<and> (out = Returned \<longrightarrow> 0 < F \<and> currentFrame ctx' = (currentFrame ctx + 1) mod F)
       \<and> (\<exists>cs. calls ctx' = calls ctx @ cs
              \<and> (\<forall>c. Call_vkQueueSubmit c \<in> set cs \<longrightarrow> c = currentFrame ctx))"
proof (cases "beginResult r = VK_SUCCESS \<and> endResult r = VK_SUCCESS")
  case False
  with assms show ?thesis
    by (auto simp: Draw_submit_def recordCommandBuffer_def Let_def emit_simps split: if_splits)
next
  case True
  then have b: "beginResult r = VK_SUCCESS" and e: "endResult r = VK_SUCCESS" by simp_all
  show ?thesis
  proof (cases "submitResult r = VK_SUCCESS")
    case False
    with assms b e show ?thesis
      by (auto simp: Draw_submit_def recordCommandBuffer_def Let_def emit_simps)
  next
    case True
    from assms [unfolded Draw_submit_to_present [OF b e True]]
    have "inFlightFences ctx' = (inFlightFences ctx)[currentFrame ctx := Pending]"
      and "out = Returned \<longrightarrow> 0 < F \<and> currentFrame ctx' = (currentFrame ctx + 1) mod F"
      and "\<exists>cs. calls ctx' = (calls ctx @
                      [Call_vkResetFences (currentFrame ctx),
                       Call_vkResetCommandBuffer (currentFrame ctx),
                       Call_vkBeginCommandBuffer (currentFrame ctx),
                       RenderPassCommands (currentFrame ctx) (acquiredImageIndex r),
                       Call_vkEndCommandBuffer (currentFrame ctx),
                       Call_updateUniformBuffer (currentFrame ctx),
                       Call_vkQueueSubmit (currentFrame ctx)]) @ cs
               \<and> (\<forall>c. Call_vkQueueSubmit c \<notin> set cs)"
      using Draw_present_frame by (simp_all del: append_assoc append.simps, fastforce+)
    then show ?thesis by auto
  qed
qed

lemma Draw_acquire_frame:
  assumes "Draw_acquire F r ctx = (out, ctx')"
  shows "length (inFlightFences ctx') = length (inFlightFences ctx)
       \<and> (\<forall>j. j \<noteq> currentFrame ctx \<longrightarrow> inFlightFences ctx' ! j = inFlightFences ctx ! j)
       \<and> (out = Returned \<longrightarrow> 0 < F \<and> currentFrame ctx' = (currentFrame ctx + 1) mod F)
       \<and> (\<exists>cs. calls ctx' = calls ctx @ cs
              \<and> (\<forall>c. Call_vkQueueSubmit c \<in> set cs \<longrightarrow> c = currentFrame ctx))"
proof -
  from Draw_acquire_to_submit [of F r ctx] obtain mid cs where
    step: "Draw_acquire F r ctx = Draw_submit F r mid"
    and mid: "currentFrame mid = currentFrame ctx" "inFlightFences mid = inFlightFences ctx"
      "calls mid = calls ctx @ cs" "\<forall>c. Call_vkQueueSubmit c \<notin> set cs"
    by blast
  from assms step have "Draw_submit F r mid = (out, ctx')" by simp
  from Draw_submit_frame [OF this] obtain cs' where
    "length (inFlightFences ctx') = length (inFlightFences mid)"
    "\<forall>j. j \<noteq> currentFrame mid \<longrightarrow> inFlightFences ctx' ! j = inFlightFences mid ! j"
    "out = Returned \<longrightarrow> 0 < F \<and> currentFrame ctx' = (currentFrame mid + 1) mod F"
    "calls ctx' = calls mid @ cs'"
    "\<forall>c. Call_vkQueueSubmit c \<in> set cs' \<longrightarrow> c = currentFrame mid"
    by blast
  with mid have
    "length (inFlightFences ctx') = length (inFlightFences ctx)"
    "\<forall>j. j \<noteq> currentFrame ctx \<longrightarrow> inFlightFences ctx' ! j = inFlightFences ctx ! j"
    "out = Returned \<longrightarrow> 0 < F \<and> currentFrame ctx' = (currentFrame ctx + 1) mod F"
    "calls ctx' = calls ctx @ (cs @ cs')"
    "\<forall>c. Call_vkQueueSubmit c \<in> set (cs @ cs') \<longrightarrow> c = currentFrame ctx"
    by simp_all
  then show ?thesis by blast
qed

lemma Draw_frame:
  assumes "Draw F r ctx = (out, ctx')"
  shows "length (inFlightFences ctx') = length (inFlightFences ctx)
       \<and> (\<forall>j. j \<noteq> currentFrame ctx \<longrightarrow> inFlightFences ctx' ! j = inFlightFences ctx ! j)
       \<and> (out = Returned \<longrightarrow> 0 < F \<and> currentFrame ctx' = (currentFrame ctx + 1) mod F)
       \<and> (\<exists>cs. calls ctx' = calls ctx @ cs
              \<and> (\<forall>c. Call_vkQueueSubmit c \<in> set cs \<longrightarrow> c = currentFrame ctx))"
proof (cases "currentFrame ctx < length (inFlightFences ctx)
              \<and> (inFlightFences ctx ! currentFrame ctx = Signaled
                 \<or> inFlightFences ctx ! currentFrame ctx = Pending)")
  case True
  let ?waited = "ctx \<lparr> calls := calls ctx @ [Call_vkWaitForFences (currentFrame ctx)],
                    inFlightFences := (inFlightFences ctx)[currentFrame ctx := Signaled] \<rparr>"
  from True assms have "Draw_acquire F r ?waited = (out, ctx')"
    using Draw_wait_to_acquire [of ctx F r] by simp
  from Draw_acquire_frame [OF this] obtain cs where
    "length (inFlightFences ctx') = length (inFlightFences ?waited)"
    "\<forall>j. j \<noteq> currentFrame ?waited \<longrightarrow> inFlightFences ctx' ! j = inFlightFences ?waited ! j"
    "out = Returned \<longrightarrow> 0 < F \<and> currentFrame ctx' = (currentFrame ?waited + 1) mod F"
    "calls ctx' = calls ?waited @ cs"
    "\<forall>c. Call_vkQueueSubmit c \<in> set cs \<longrightarrow> c = currentFrame ?waited"
    by blast
  then have
    "length (inFlightFences ctx') = length (inFlightFences ctx)"
    "\<forall>j. j \<noteq> currentFrame ctx \<longrightarrow> inFlightFences ctx' ! j = inFlightFences ctx ! j"
    "out = Returned \<longrightarrow> 0 < F \<and> currentFrame ctx' = (currentFrame ctx + 1) mod F"
    "calls ctx' = calls ctx @ (Call_vkWaitForFences (currentFrame ctx) # cs)"
    "\<forall>c. Call_vkQueueSubmit c \<in> set (Call_vkWaitForFences (currentFrame ctx) # cs)
           \<longrightarrow> c = currentFrame ctx"
    by simp_all
  then show ?thesis by blast
next
  case False
  with assms have "out \<noteq> Returned \<and> inFlightFences ctx' = inFlightFences ctx
      \<and> (calls ctx' = calls ctx @ [] \<or> calls ctx' = calls ctx @ [Call_vkWaitForFences (currentFrame ctx)])"
    by (cases "inFlightFences ctx ! currentFrame ctx")
       (auto simp: Draw_def Let_def emit_simps vkWaitForFences_def split: if_splits)
  then show ?thesis by fastforce
qed

text \<open>Fewer steps than slots never come back to a slot already visited.\<close>

lemma slot_distinct:
  fixes c :: nat
  assumes "m < k" and "k < F"
  shows "(c + m) mod F \<noteq> (c + k) mod F"
proof
  assume "(c + m) mod F = (c + k) mod F"
  then have "(c + k) mod F = (c + m) mod F" by simp
  moreover from assms have "c + m \<le> c + k" by simp
  ultimately have "F dvd (c + k) - (c + m)"
    by (simp add: mod_eq_dvd_iff_nat)
  then have "F dvd k - m" by simp
  moreover from assms have "0 < k - m" "k - m < F" by simp_all
  ultimately show False
    by (meson dvd_imp_le not_le)
qed

lemma drawFrames_frame:
  assumes "drawFrames F rs ctx = (Returned, ctx')" and "currentFrame ctx < F"
  shows "length (inFlightFences ctx') = length (inFlightFences ctx)
       \<and> currentFrame ctx' = (currentFrame ctx + length rs) mod F
       \<and> (\<forall>j. (\<forall>m<length rs. (currentFrame ctx + m) mod F \<noteq> j) \<longrightarrow>
               inFlightFences ctx' ! j = inFlightFences ctx ! j)
       \<and> (\<exists>cs. calls ctx' = calls ctx @ cs
              \<and> (\<forall>c. Call_vkQueueSubmit c \<in> set cs \<longrightarrow>
                       (\<exists>m<length rs. c = (currentFrame ctx + m) mod F)))"
  using assms
proof (induction rs arbitrary: ctx)
  case Nil
  then show ?case by simp
next
  case (Cons r rs)
  obtain out mid where d: "Draw F r ctx = (out, mid)" by (cases "Draw F r ctx")
  with Cons.prems(1) have out: "out = Returned" and rest: "drawFrames F rs mid = (Returned, ctx')"
    by (auto split: outcome.splits)
  from Draw_frame [OF d] out obtain cs where mid:
    "length (inFlightFences mid) = length (inFlightFences ctx)"
    "\<forall>j. j \<noteq> currentFrame ctx \<longrightarrow> inFlightFences mid ! j = inFlightFences ctx ! j"
    "0 < F" "currentFrame mid = (currentFrame ctx + 1) mod F"
    "calls mid = calls ctx @ cs"
    "\<forall>c. Call_vkQueueSubmit c \<in> set cs \<longrightarrow> c = currentFrame ctx"
    by blast
  from mid(3,4) have lt: "currentFrame mid < F" by simp
  from Cons.IH [OF rest lt] obtain cs' where ih:
    "length (inFlightFences ctx') = length (inFlightFences mid)"
    "currentFrame ctx' = (currentFrame mid + length rs) mod F"
    "\<forall>j. (\<forall>m<length rs. (currentFrame mid + m) mod F \<noteq> j) \<longrightarrow>
               inFlightFences ctx' ! j = inFlightFences mid ! j"
    "calls ctx' = calls mid @ cs'"
    "\<forall>c. Call_vkQueueSubmit c \<in> set cs' \<longrightarrow> (\<exists>m<length rs. c = (currentFrame mid + m) mod F)"
    by blast
  have shift: "\<And>m. (currentFrame mid + m) mod F = (currentFrame ctx + Suc m) mod F"
    unfolding mid(4) by (simp add: mod_add_left_eq)
  have c0: "(currentFrame ctx + 0) mod F = currentFrame ctx"
    using Cons.prems(2) by simp
  have 1: "length (inFlightFences ctx') = length (inFlightFences ctx)"
    using ih(1) mid(1) by simp
  have 2: "currentFrame ctx' = (currentFrame ctx + length (r # rs)) mod F"
    using ih(2) shift by simp
  have 3: "\<forall>j. (\<forall>m<length (r # rs). (currentFrame ctx + m) mod F \<noteq> j) \<longrightarrow>
               inFlightFences ctx' ! j = inFlightFences ctx ! j"
  proof (intro allI impI)
    fix j
    assume a: "\<forall>m<length (r # rs). (currentFrame ctx + m) mod F \<noteq> j"
    then have "(currentFrame ctx + 0) mod F \<noteq> j" by (metis length_Cons zero_less_Suc)
    with c0 have "j \<noteq> currentFrame ctx" by simp
    with mid(2) have m: "inFlightFences mid ! j = inFlightFences ctx ! j" by simp
    from a have "\<forall>m<length rs. (currentFrame mid + m) mod F \<noteq> j"
      unfolding shift by auto
    with ih(3) have "inFlightFences ctx' ! j = inFlightFences mid ! j" by simp
    with m show "inFlightFences ctx' ! j = inFlightFences ctx ! j" by simp
  qed
  have 4: "calls ctx' = calls ctx @ (cs @ cs')"
    using ih(4) mid(5) by simp
  have 5: "\<forall>c. Call_vkQueueSubmit c \<in> set (cs @ cs') \<longrightarrow>
                 (\<exists>m<length (r # rs). c = (currentFrame ctx + m) mod F)"
  proof (intro allI impI)
    fix c assume "Call_vkQueueSubmit c \<in> set (cs @ cs')"
    then consider "Call_vkQueueSubmit c \<in> set cs" | "Call_vkQueueSubmit c \<in> set cs'" by auto
    then show "\<exists>m<length (r # rs). c = (currentFrame ctx + m) mod F"
    proof cases
      case 1
      with mid(6) c0 have "c = (currentFrame ctx + 0) mod F" by simp
      then show ?thesis by (intro exI [of _ 0]) simp
    next
      case 2
      with ih(5) obtain m where "m < length rs" "c = (currentFrame mid + m) mod F" by blast
      then show ?thesis unfolding shift by (intro exI [of _ "Suc m"]) simp
    qed
  qed
  from 1 2 3 4 5 show ?case by blast
qed

text \<open>The sync-object setup.\<close>

lemma createSyncObjects_fail_not_Returned:
  "createSyncObjects_fail ctx \<noteq> (Returned, ctx')"
  by (simp add: createSyncObjects_fail_def)

lemma createSyncObjects_loop_Returned:
  assumes "createSyncObjects_loop results fenceInfo_flags slots ctx = (Returned, ctx')"
  shows "length (inFlightFences ctx') = length (inFlightFences ctx)
       \<and> (\<forall>i. i \<in> set slots \<and> i < length (inFlightFences ctx) \<longrightarrow>
               inFlightFences ctx' ! i = vkCreateFence fenceInfo_flags)
       \<and> (\<forall>i. i \<notin> set slots \<longrightarrow> inFlightFences ctx' ! i = inFlightFences ctx ! i)
       \<and> currentFrame ctx' = currentFrame ctx
       \<and> (\<exists>cs. calls ctx' = calls ctx @ cs \<and> (\<forall>c. Call_vkQueueSubmit c \<notin> set cs))"
  using assms
proof (induction slots arbitrary: ctx)
  case Nil
  then show ?case by simp
next
  case (Cons i rest)
  let ?next = "ctx \<lparr> imageAvailableSemaphores := (imageAvailableSemaphores ctx)[i := True],
                    renderFinishedSemaphores := (renderFinishedSemaphores ctx)[i := True],
                    calls := calls ctx @ [Call_vkCreateSemaphore, Call_vkCreateSemaphore,
                                           Call_vkCreateFence fenceInfo_flags],
                    inFlightFences := (inFlightFences ctx)[i := vkCreateFence fenceInfo_flags] \<rparr>"
  from Cons.prems have ok: "fst (results i) = VK_SUCCESS" "fst (snd (results i)) = VK_SUCCESS"
    "snd (snd (results i)) = VK_SUCCESS"
    by (auto simp: Let_def createSyncObjects_fail_not_Returned split: if_splits)
  with Cons.prems have rest: "createSyncObjects_loop results fenceInfo_flags rest ?next = (Returned, ctx')"
    by (simp add: Let_def emit_def)
  from Cons.IH [OF rest] obtain cs where ih:
    "length (inFlightFences ctx') = length (inFlightFences ?next)"
    "\<forall>j. j \<in> set rest \<and> j < length (inFlightFences ?next) \<longrightarrow>
               inFlightFences ctx' ! j = vkCreateFence fenceInfo_flags"
    "\<forall>j. j \<notin> set rest \<longrightarrow> inFlightFences ctx' ! j = inFlightFences ?next ! j"
    "currentFrame ctx' = currentFrame ?next"
    "calls ctx' = calls ?next @ cs" "\<forall>c. Call_vkQueueSubmit c \<notin> set cs"
    by blast
  have 1: "length (inFlightFences ctx') = length (inFlightFences ctx)"
    using ih(1) by simp
  have 2: "\<forall>j. j \<in> set (i # rest) \<and> j < length (inFlightFences ctx) \<longrightarrow>
               inFlightFences ctx' ! j = vkCreateFence fenceInfo_flags"
  proof (intro allI impI)
    fix j assume a: "j \<in> set (i # rest) \<and> j < length (inFlightFences ctx)"
    show "inFlightFences ctx' ! j = vkCreateFence fenceInfo_flags"
    proof (cases "j \<in> set rest")
      case True
      with a ih(2) show ?thesis by simp
    next
      case False
      with a have "j = i" by simp
      with False a ih(3) show ?thesis by simp
    qed
  qed
  have 3: "\<forall>j. j \<notin> set (i # rest) \<longrightarrow> inFlightFences ctx' ! j = inFlightFences ctx ! j"
    using ih(3) by simp
  have 4: "currentFrame ctx' = currentFrame ctx"
    using ih(4) by simp
  have 5: "calls ctx' = calls ctx @ ([Call_vkCreateSemaphore, Call_vkCreateSemaphore,
                                           Call_vkCreateFence fenceInfo_flags] @ cs)"
    using ih(5) by simp
  have 6: "\<forall>c. Call_vkQueueSubmit c \<notin> set ([Call_vkCreateSemaphore, Call_vkCreateSemaphore,
                                           Call_vkCreateFence fenceInfo_flags] @ cs)"
    using ih(6) by simp
  from 1 2 3 4 5 6 show ?case by blast
qed

lemma createSyncObjects_Returned:
  assumes "createSyncObjects F results ctx = (Returned, ctx')"
  shows "length (inFlightFences ctx') = F
       \<and> (\<forall>i<F. inFlightFences ctx' ! i = Signaled)
       \<and> currentFrame ctx' = currentFrame ctx
       \<and> (\<exists>cs. calls ctx' = calls ctx @ cs \<and> (\<forall>c. Call_vkQueueSubmit c \<notin> set cs))"
proof -
  let ?resized = "ctx \<lparr>
            imageAvailableSemaphores := resize F False (imageAvailableSemaphores ctx),
            renderFinishedSemaphores := resize F False (renderFinishedSemaphores ctx),
            inFlightFences := resize F NullFence (inFlightFences ctx) \<rparr>"
  obtain out looped where l:
    "createSyncObjects_loop results VK_FENCE_CREATE_SIGNALED_BIT [0 ..< F] ?resized = (out, looped)"
    by (cases "createSyncObjects_loop results VK_FENCE_CREATE_SIGNALED_BIT [0 ..< F] ?resized")
  with assms have out: "out = Returned"
    and fin: "ctx' = emit (LogInfo ''semaphores created Successfully!'') looped"
    by (auto simp: createSyncObjects_def Let_def split: outcome.splits)
  have len: "length (inFlightFences ?resized) = F"
    by (simp add: resize_def)
  have sig: "vkCreateFence VK_FENCE_CREATE_SIGNALED_BIT = Signaled"
    by (simp add: vkCreateFence_def VK_FENCE_CREATE_SIGNALED_BIT_def)
  from createSyncObjects_loop_Returned [OF l [unfolded out]] obtain cs where lp:
    "length (inFlightFences looped) = length (inFlightFences ?resized)"
    "\<forall>i. i \<in> set [0 ..< F] \<and> i < length (inFlightFences ?resized) \<longrightarrow>
               inFlightFences looped ! i = vkCreateFence VK_FENCE_CREATE_SIGNALED_BIT"
    "currentFrame looped = currentFrame ?resized"
    "calls looped = calls ?resized @ cs" "\<forall>c. Call_vkQueueSubmit c \<notin> set cs"
    by blast
  have 1: "length (inFlightFences ctx') = F"
    using lp(1) len fin by (simp add: emit_simps)
  have 2: "\<forall>i<F. inFlightFences ctx' ! i = Signaled"
    using lp(2) len sig fin by (simp add: emit_simps)
  have 3: "currentFrame ctx' = currentFrame ctx"
    using lp(3) fin by (simp add: emit_simps)
  have 4: "calls ctx' = calls ctx @ (cs @ [LogInfo ''semaphores created Successfully!''])"
    using lp(4) fin by (simp add: emit_simps)
  have 5: "\<forall>c. Call_vkQueueSubmit c \<notin> set (cs @ [LogInfo ''semaphores created Successfully!''])"
    using lp(5) by simp
  from 1 2 3 4 5 show ?thesis by blast
qed

text \<open>
  C10. After a successful sync-object setup there are \<open>MAX_FRAMES_IN_FLIGHT\<close>
  in-flight fences, every one of them signaled, so a wait on any of them returns at
  once, and the setup made no queue submission. Moreover, after any run of fewer than
  \<open>MAX_FRAMES_IN_FLIGHT\<close> returned calls of \<open>Draw\<close> the current slot is one that
  no submission has been made on yet, and the wait on its fence, the first for that slot,
  returns at once.
\<close>

theorem createSyncObjects_first_wait_returns_at_once:
  assumes "createSyncObjects MAX_FRAMES_IN_FLIGHT results ctx = (Returned, ctx0)"
  shows "length (inFlightFences ctx0) = MAX_FRAMES_IN_FLIGHT
       \<and> (\<forall>i<MAX_FRAMES_IN_FLIGHT.
             inFlightFences ctx0 ! i = Signaled
             \<and> vkWaitForFences (inFlightFences ctx0 ! i) = ReturnsAtOnce)
       \<and> (\<forall>c. Call_vkQueueSubmit c \<notin> set (newCalls ctx ctx0))
       \<and> (\<forall>rs ctx'. currentFrame ctx0 < MAX_FRAMES_IN_FLIGHT
             \<and> length rs < MAX_FRAMES_IN_FLIGHT
             \<and> drawFrames MAX_FRAMES_IN_FLIGHT rs ctx0 = (Returned, ctx') \<longrightarrow>
             currentFrame ctx' = (currentFrame ctx0 + length rs) mod MAX_FRAMES_IN_FLIGHT
             \<and> Call_vkQueueSubmit (currentFrame ctx') \<notin> set (newCalls ctx ctx')
             \<and> vkWaitForFences (inFlightFences ctx' ! currentFrame ctx') = ReturnsAtOnce)"
proof -
  let ?F = MAX_FRAMES_IN_FLIGHT
  from createSyncObjects_Returned [OF assms] obtain cs where s:
    "length (inFlightFences ctx0) = ?F"
    "\<forall>i<?F. inFlightFences ctx0 ! i = Signaled"
    "calls ctx0 = calls ctx @ cs" "\<forall>c. Call_vkQueueSubmit c \<notin> set cs"
    by blast
  have at_once: "vkWaitForFences Signaled = ReturnsAtOnce"
    by (simp add: vkWaitForFences_def)
  have a: "\<forall>i<?F. inFlightFences ctx0 ! i = Signaled
             \<and> vkWaitForFences (inFlightFences ctx0 ! i) = ReturnsAtOnce"
    using s(2) at_once by simp
  have b: "\<forall>c. Call_vkQueueSubmit c \<notin> set (newCalls ctx ctx0)"
    using s(3,4) by (simp add: newCalls_def)
  have c: "\<forall>rs ctx'. currentFrame ctx0 < ?F \<and> length rs < ?F
             \<and> drawFrames ?F rs ctx0 = (Returned, ctx') \<longrightarrow>
             currentFrame ctx' = (currentFrame ctx0 + length rs) mod ?F
             \<and> Call_vkQueueSubmit (currentFrame ctx') \<notin> set (newCalls ctx ctx')
             \<and> vkWaitForFences (inFlightFences ctx' ! currentFrame ctx') = ReturnsAtOnce"
  proof (intro allI impI)
    fix rs ctx'
    assume h: "currentFrame ctx0 < ?F \<and> length rs < ?F
             \<and> drawFrames ?F rs ctx0 = (Returned, ctx')"
    then have run: "drawFrames ?F rs ctx0 = (Returned, ctx')"
      and c0: "currentFrame ctx0 < ?F" and n: "length rs < ?F" by simp_all
    from drawFrames_frame [OF run c0] obtain cs' where f:
      "currentFrame ctx' = (currentFrame ctx0 + length rs) mod ?F"
      "\<forall>j. (\<forall>m<length rs. (currentFrame ctx0 + m) mod ?F \<noteq> j) \<longrightarrow>
               inFlightFences ctx' ! j = inFlightFences ctx0 ! j"
      "calls ctx' = calls ctx0 @ cs'"
      "\<forall>c. Call_vkQueueSubmit c \<in> set cs' \<longrightarrow>
                       (\<exists>m<length rs. c = (currentFrame ctx0 + m) mod ?F)"
      by blast
    have fresh: "\<forall>m<length rs. (currentFrame ctx0 + m) mod ?F \<noteq> currentFrame ctx'"
      unfolding f(1) using slot_distinct [OF _ n] by blast
    with f(2) have same: "inFlightFences ctx' ! currentFrame ctx' = inFlightFences ctx0 ! currentFrame ctx'"
      by simp
    from c0 have "0 < ?F" by simp
    then have "currentFrame ctx' < ?F" unfolding f(1) by simp
    with s(2) same have sig: "inFlightFences ctx' ! currentFrame ctx' = Signaled" by simp
    have "Call_vkQueueSubmit (currentFrame ctx') \<notin> set cs'"
      using f(4) fresh by metis
    with s(3,4) f(3) have nosub: "Call_vkQueueSubmit (currentFrame ctx') \<notin> set (newCalls ctx ctx')"
      by (simp add: newCalls_def)
    from f(1) nosub sig at_once
    show "currentFrame ctx' = (currentFrame ctx0 + length rs) mod ?F
             \<and> Call_vkQueueSubmit (currentFrame ctx') \<notin> set (newCalls ctx ctx')
             \<and> vkWaitForFences (inFlightFences ctx' ! currentFrame ctx') = ReturnsAtOnce"
      by simp
  qed
  from s(1) a b c show ?thesis by blast
qed

text \<open>A setup for two slots and one successful frame after it.\<close>

lemma createSyncObjects_example:
  "createSyncObjects 2 (\<lambda>i. (VK_SUCCESS, VK_SUCCESS, VK_SUCCESS))
     \<lparr> currentFrame = 0, framebufferResized = False,
       imageAvailableSemaphores = [], renderFinishedSemaphores = [],
       inFlightFences = [], calls = [] \<rparr>
   = (Returned,
     \<lparr> currentFrame = 0, framebufferResized = False,
       imageAvailableSemaphores = [True, True], renderFinishedSemaphores = [True, True],
       inFlightFences = [Signaled, Signaled],
       calls = [Call_vkCreateSemaphore, Call_vkCreateSemaphore, Call_vkCreateFence 1,
                Call_vkCreateSemaphore, Call_vkCreateSemaphore, Call_vkCreateFence 1,
                LogInfo ''semaphores created Successfully!''] \<rparr>)"
proof -
  have slots: "[0 ..< 2] = [0, Suc 0]"
    by (simp add: numeral_2_eq_2 upt_rec)
  have pad: "replicate 2 x = [x, x]" for x :: 'a
    by (simp add: numeral_2_eq_2)
  show ?thesis
    unfolding createSyncObjects_def slots
    by (simp add: resize_def pad Let_def emit_def vkCreateFence_def VK_FENCE_CREATE_SIGNALED_BIT_def)
qed

lemma drawFrames_example:
  "fst (drawFrames 2
     [\<lparr> acquireResult = VK_SUCCESS, acquiredImageIndex = 0,
       beginResult = VK_SUCCESS, endResult = VK_SUCCESS, submitResult = VK_SUCCESS,
       presentResult = VK_SUCCESS, recreateOutcome = Returned \<rparr>]
     \<lparr> currentFrame = 0, framebufferResized = False,
       imageAvailableSemaphores = [True, True], renderFinishedSemaphores = [True, True],
       inFlightFences = [Signaled, Signaled],
       calls = [Call_vkCreateSemaphore, Call_vkCreateSemaphore, Call_vkCreateFence 1,
                Call_vkCreateSemaphore, Call_vkCreateSemaphore, Call_vkCreateFence 1,
                LogInfo ''semaphores created Successfully!''] \<rparr>) = Returned"
  by (simp add: Draw_def Draw_acquire_def Draw_submit_def Draw_present_def Draw_advance_def
      recordCommandBuffer_def recreateSwapChain_def vkWaitForFences_def emit_def Let_def
      VK_SUCCESS_def VK_ERROR_OUT_OF_DATE_KHR_def VK_SUBOPTIMAL_KHR_def)

text \<open>
  C10 with two slots: both fences are signaled after the setup, and after the first
  frame (on slot 0) the wait for slot 1 returns at once.
\<close>

theorem createSyncObjects_first_wait_returns_at_once_witness:
  "createSyncObjects 2 (\<lambda>i. (VK_SUCCESS, VK_SUCCESS, VK_SUCCESS))
     \<lparr> currentFrame = 0, framebufferResized = False,
       imageAvailableSemaphores = [], renderFinishedSemaphores = [],
       inFlightFences = [], calls = [] \<rparr>
   = (Returned,
     \<lparr> currentFrame = 0, framebufferResized = False,
       imageAvailableSemaphores = [True, True], renderFinishedSemaphores = [True, True],
       inFlightFences = [Signaled, Signaled],
       calls = [Call_vkCreateSemaphore, Call_vkCreateSemaphore, Call_vkCreateFence 1,
                Call_vkCreateSemaphore, Call_vkCreateSemaphore, Call_vkCreateFence 1,
                LogInfo ''semaphores created Successfully!''] \<rparr>)
   \<and> vkWaitForFences ([Signaled, Signaled] ! 0) = ReturnsAtOnce
   \<and> vkWaitForFences ([Signaled, Signaled] ! 1) = ReturnsAtOnce
   \<and> fst (drawFrames 2
     [\<lparr> acquireResult = VK_SUCCESS, acquiredImageIndex = 0,
       beginResult = VK_SUCCESS, endResult = VK_SUCCESS, submitResult = VK_SUCCESS,
       presentResult = VK_SUCCESS, recreateOutcome = Returned \<rparr>]
     \<lparr> currentFrame = 0, framebufferResized = False,
       imageAvailableSemaphores = [True, True], renderFinishedSemaphores = [True, True],
       inFlightFences = [Signaled, Signaled],
       calls = [Call_vkCreateSemaphore, Call_vkCreateSemaphore, Call_vkCreateFence 1,
                Call_vkCreateSemaphore, Call_vkCreateSemaphore, Call_vkCreateFence 1,
                LogInfo ''semaphores created Successfully!''] \<rparr>) = Returned
   \<and> currentFrame (snd (drawFrames 2
     [\<lparr> acquireResult = VK_SUCCESS, acquiredImageIndex = 0,
       beginResult = VK_SUCCESS, endResult = VK_SUCCESS, submitResult = VK_SUCCESS,
       presentResult = VK_SUCCESS, recreateOutcome = Returned \<rparr>]
     \<lparr> currentFrame = 0, framebufferResized = False,
       imageAvailableSemaphores = [True, True], renderFinishedSemaphores = [True, True],
       inFlightFences = [Signaled, Signaled],
       calls = [Call_vkCreateSemaphore, Call_vkCreateSemaphore, Call_vkCreateFence 1,
                Call_vkCreateSemaphore, Call_vkCreateSemaphore, Call_vkCreateFence 1,
                LogInfo ''semaphores created Successfully!''] \<rparr>)) = 1
   \<and> vkWaitForFences
        (inFlightFences (snd (drawFrames 2
     [\<lparr> acquireResult = VK_SUCCESS, acquiredImageIndex = 0,
       beginResult = VK_SUCCESS, endResult = VK_SUCCESS, submitResult = VK_SUCCESS,
       presentResult = VK_SUCCESS, recreateOutcome = Returned \<rparr>]
     \<lparr> currentFrame = 0, framebufferResized = False,
       imageAvailableSemaphores = [True, True], renderFinishedSemaphores = [True, True],
       inFlightFences = [Signaled, Signaled],
       calls = [Call_vkCreateSemaphore, Call_vkCreateSemaphore, Call_vkCreateFence 1,
                Call_vkCreateSemaphore, Call_vkCreateSemaphore, Call_vkCreateFence 1,
                LogInfo ''semaphores created Successfully!''] \<rparr>)) ! 1) = ReturnsAtOnce"
proof -
  let ?ctx0 = "\<lparr> currentFrame = 0, framebufferResized = False,
       imageAvailableSemaphores = [True, True], renderFinishedSemaphores = [True, True],
       inFlightFences = [Signaled, Signaled],
       calls = [Call_vkCreateSemaphore, Call_vkCreateSemaphore, Call_vkCreateFence 1,
                Call_vkCreateSemaphore, Call_vkCreateSemaphore, Call_vkCreateFence 1,
                LogInfo ''semaphores created Successfully!''] \<rparr>"
  let ?rs = "[\<lparr> acquireResult = VK_SUCCESS, acquiredImageIndex = 0,
       beginResult = VK_SUCCESS, endResult = VK_SUCCESS, submitResult = VK_SUCCESS,
       presentResult = VK_SUCCESS, recreateOutcome = Returned \<rparr>]"
  define d where "d = drawFrames 2 ?rs ?ctx0"
  have run: "drawFrames 2 ?rs ?ctx0 = (Returned, snd d)"
    using drawFrames_example unfolding d_def by (metis prod.collapse)
  from createSyncObjects_first_wait_returns_at_once [OF createSyncObjects_example]
  have slots: "\<forall>i<2. inFlightFences ?ctx0 ! i = Signaled
             \<and> vkWaitForFences (inFlightFences ?ctx0 ! i) = ReturnsAtOnce"
    and later: "\<forall>rs ctx'. currentFrame ?ctx0 < 2 \<and> length rs < 2
             \<and> drawFrames 2 rs ?ctx0 = (Returned, ctx') \<longrightarrow>
             currentFrame ctx' = (currentFrame ?ctx0 + length rs) mod 2
             \<and> Call_vkQueueSubmit (currentFrame ctx') \<notin> set (newCalls
       \<lparr> currentFrame = 0, framebufferResized = False,
       imageAvailableSemaphores = [], renderFinishedSemaphores = [],
       inFlightFences = [], calls = [] \<rparr> ctx')
             \<and> vkWaitForFences (inFlightFences ctx' ! currentFrame ctx') = ReturnsAtOnce"
    by blast+
  from slots [rule_format, of 0] slots [rule_format, of 1]
  have s0: "vkWaitForFences ([Signaled, Signaled] ! 0) = ReturnsAtOnce"
    and s1: "vkWaitForFences ([Signaled, Signaled] ! 1) = ReturnsAtOnce"
    by simp_all
  have pre: "currentFrame ?ctx0 < 2 \<and> length ?rs < 2 \<and> drawFrames 2 ?rs ?ctx0 = (Returned, snd d)"
    using run by (intro conjI) simp_all
  from later [rule_format, OF pre]
  have cf: "currentFrame (snd d) = (currentFrame ?ctx0 + length ?rs) mod 2"
    and wt: "vkWaitForFences (inFlightFences (snd d) ! currentFrame (snd d)) = ReturnsAtOnce"
    by blast+
  from cf have cf1: "currentFrame (snd d) = 1" by simp
  from wt have wt1: "vkWaitForFences (inFlightFences (snd d) ! 1) = ReturnsAtOnce"
    unfolding cf1 .
  from cf1 wt1 have c: "currentFrame (snd (drawFrames 2 ?rs ?ctx0)) = 1"
    and w: "vkWaitForFences (inFlightFences (snd (drawFrames 2 ?rs ?ctx0)) ! 1) = ReturnsAtOnce"
    unfolding d_def by blast+
  from createSyncObjects_example s0 s1 drawFrames_example c w show ?thesis
    by blast
qed

end
